theory Spec2Isabelle
  imports Complex_Main
begin

section \<open>Walk/fly navigation controls: the embedding\<close>

text \<open>
  The controller of \<^verbatim>\<open>createWalkFlyControls\<close> is a closure over mutable variables and the
  camera it is given. Here the closure is a record, every handler and API function takes
  the record and returns it updated, and JavaScript numbers are read as real numbers:
  rounding, infinities and NaN are outside the model.
\<close>

subsection \<open>Vectors, Euler angles and quaternions of the 3D library\<close>

record Vector3 =
  vx :: real
  vy :: real
  vz :: real

record Euler =
  ex :: real
  ey :: real
  ez :: real

record Quaternion =
  qx :: real
  qy :: real
  qz :: real
  qw :: real

definition clamp :: "real \<Rightarrow> real \<Rightarrow> real \<Rightarrow> real" where
  "clamp v lo hi = max lo (min hi v)"

definition vec3 :: "real \<Rightarrow> real \<Rightarrow> real \<Rightarrow> Vector3" where
  "vec3 a b c = \<lparr>vx = a, vy = b, vz = c\<rparr>"

definition lengthSq :: "Vector3 \<Rightarrow> real" where
  "lengthSq v = vx v * vx v + vy v * vy v + vz v * vz v"

definition vlength :: "Vector3 \<Rightarrow> real" where
  "vlength v = sqrt (lengthSq v)"

definition multiplyScalar :: "Vector3 \<Rightarrow> real \<Rightarrow> Vector3" where
  "multiplyScalar v k = vec3 (vx v * k) (vy v * k) (vz v * k)"

text \<open>\<^verbatim>\<open>normalize\<close> divides by \<^verbatim>\<open>length() || 1\<close>: the zero vector stays zero.\<close>

definition normalize :: "Vector3 \<Rightarrow> Vector3" where
  "normalize v = multiplyScalar v (1 / (if vlength v = 0 then 1 else vlength v))"

definition addScaledVector :: "Vector3 \<Rightarrow> Vector3 \<Rightarrow> real \<Rightarrow> Vector3" where
  "addScaledVector p v k = vec3 (vx p + vx v * k) (vy p + vy v * k) (vz p + vz v * k)"

definition sub :: "Vector3 \<Rightarrow> Vector3 \<Rightarrow> Vector3" where
  "sub a b = vec3 (vx a - vx b) (vy a - vy b) (vz a - vz b)"

definition crossVectors :: "Vector3 \<Rightarrow> Vector3 \<Rightarrow> Vector3" where
  "crossVectors a b =
     vec3 (vy a * vz b - vz a * vy b) (vz a * vx b - vx a * vz b) (vx a * vy b - vy a * vx b)"

text \<open>\<^verbatim>\<open>Quaternion.setFromEuler\<close> for the order \<^verbatim>\<open>'YXZ'\<close>, the only order the controller uses.\<close>

definition setFromEuler :: "Euler \<Rightarrow> Quaternion" where
  "setFromEuler e =
     (let c1 = cos (ex e / 2); c2 = cos (ey e / 2); c3 = cos (ez e / 2);
          s1 = sin (ex e / 2); s2 = sin (ey e / 2); s3 = sin (ez e / 2)
      in \<lparr>qx = s1 * c2 * c3 + c1 * s2 * s3,
          qy = c1 * s2 * c3 - s1 * c2 * s3,
          qz = c1 * c2 * s3 - s1 * s2 * c3,
          qw = c1 * c2 * c3 + s1 * s2 * s3\<rparr>)"

definition setFromAxisAngle :: "Vector3 \<Rightarrow> real \<Rightarrow> Quaternion" where
  "setFromAxisAngle axis angle =
     (let s = sin (angle / 2)
      in \<lparr>qx = vx axis * s, qy = vy axis * s, qz = vz axis * s, qw = cos (angle / 2)\<rparr>)"

definition multiply :: "Quaternion \<Rightarrow> Quaternion \<Rightarrow> Quaternion" where
  "multiply a b =
     \<lparr>qx = qx a * qw b + qw a * qx b + qy a * qz b - qz a * qy b,
      qy = qy a * qw b + qw a * qy b + qz a * qx b - qx a * qz b,
      qz = qz a * qw b + qw a * qz b + qx a * qy b - qy a * qx b,
      qw = qw a * qw b - qx a * qx b - qy a * qy b - qz a * qz b\<rparr>"

definition applyQuaternion :: "Vector3 \<Rightarrow> Quaternion \<Rightarrow> Vector3" where
  "applyQuaternion v q =
     (let tx = 2 * (qy q * vz v - qz q * vy v);
          ty = 2 * (qz q * vx v - qx q * vz v);
          tz = 2 * (qx q * vy v - qy q * vx v)
      in vec3 (vx v + qw q * tx + qy q * tz - qz q * ty)
              (vy v + qw q * ty + qz q * tx - qx q * tz)
              (vz v + qw q * tz + qx q * ty - qy q * tx))"

definition applyEuler :: "Vector3 \<Rightarrow> Euler \<Rightarrow> Vector3" where
  "applyEuler v e = applyQuaternion v (setFromEuler e)"

text \<open>\<^verbatim>\<open>Math.atan2\<close> on reals (the sign of a zero is not modelled).\<close>

definition atan2 :: "real \<Rightarrow> real \<Rightarrow> real" where
  "atan2 b a =
     (if 0 < a then arctan (b / a)
      else if a < 0 then (if 0 \<le> b then arctan (b / a) + pi else arctan (b / a) - pi)
      else if 0 < b then pi / 2
      else if b < 0 then - (pi / 2)
      else 0)"

text \<open>
  \<^verbatim>\<open>Euler.setFromQuaternion\<close> for the order \<^verbatim>\<open>'YXZ'\<close>: the rotation matrix of the
  quaternion, then \<^verbatim>\<open>setFromRotationMatrix\<close>.
\<close>

definition setFromQuaternion :: "Quaternion \<Rightarrow> Euler" where
  "setFromQuaternion q =
     (let m11 = 1 - (2 * qy q * qy q + 2 * qz q * qz q);
          m21 = 2 * qx q * qy q + 2 * qw q * qz q;
          m31 = 2 * qx q * qz q - 2 * qw q * qy q;
          m22 = 1 - (2 * qx q * qx q + 2 * qz q * qz q);
          m13 = 2 * qx q * qz q + 2 * qw q * qy q;
          m23 = 2 * qy q * qz q - 2 * qw q * qx q;
          m33 = 1 - (2 * qx q * qx q + 2 * qy q * qy q)
      in if \<bar>m23\<bar> < 0.9999999
         then \<lparr>ex = arcsin (- clamp m23 (-1) 1), ey = atan2 m13 m33, ez = atan2 m21 m22\<rparr>
         else \<lparr>ex = arcsin (- clamp m23 (-1) 1), ey = atan2 (- m31) m11, ez = 0\<rparr>)"

subsection \<open>The camera\<close>

text \<open>
  An \<^verbatim>\<open>Object3D\<close> keeps its Euler rotation and its quaternion in step: a write to one
  recomputes the other. The camera has no parent and unit scale, so its world matrix is
  the matrix of its own quaternion; \<^verbatim>\<open>getWorldDirection\<close> of a camera is the negated,
  normalised third column.
\<close>

record Camera =
  position :: Vector3
  rotation :: Euler
  quaternion :: Quaternion

definition rotation_set :: "real \<Rightarrow> real \<Rightarrow> real \<Rightarrow> Camera \<Rightarrow> Camera" where
  "rotation_set a b c cam =
     cam\<lparr>rotation := \<lparr>ex = a, ey = b, ez = c\<rparr>,
         quaternion := setFromEuler \<lparr>ex = a, ey = b, ez = c\<rparr>\<rparr>"

definition quaternion_set :: "Quaternion \<Rightarrow> Camera \<Rightarrow> Camera" where
  "quaternion_set q cam = cam\<lparr>quaternion := q, rotation := setFromQuaternion q\<rparr>"

definition getWorldDirection :: "Camera \<Rightarrow> Vector3" where
  "getWorldDirection cam =
     (let q = quaternion cam
      in normalize (vec3 (- (2 * qx q * qz q + 2 * qw q * qy q))
                         (- (2 * qy q * qz q - 2 * qw q * qx q))
                         (- (1 - (2 * qx q * qx q + 2 * qy q * qy q)))))"

subsection \<open>The state of the controller\<close>

record ControlState =
  flyMode :: bool
  speed :: real
  lookSpeed :: real
  walkHeight :: real
  gyroEnabled :: bool
  gyroAvailable :: bool

record Movement =
  forward :: real
  backward :: real
  left :: real
  right :: real
  up :: real
  down :: real

record TouchMovement =
  touch_x :: real
  touch_z :: real

text \<open>A device-orientation event: each angle is a number of degrees or \<^verbatim>\<open>null\<close>.\<close>

record DeviceOrientationEvent =
  alpha :: "real option"
  beta :: "real option"
  gamma :: "real option"

text \<open>
  The event listeners the controller registers by name. A listener is the target, the
  event type, the handler and the capture flag; the DOM keeps at most one entry per such
  quadruple and \<^verbatim>\<open>removeEventListener\<close> removes only an exact match.
\<close>

datatype target = Document | DomElement | Window

datatype handler =
  OnPointerLockChange | OnMouseMove | OnKeyDown | OnKeyUp | RequestPointerLock
  | HandleDeviceOrientation | HandleOrientationChange

type_synonym listener = "target \<times> string \<times> handler \<times> bool"

definition addEventListener :: "listener \<Rightarrow> listener list \<Rightarrow> listener list" where
  "addEventListener l ls = (if l \<in> set ls then ls else ls @ [l])"

definition removeEventListener :: "listener \<Rightarrow> listener list \<Rightarrow> listener list" where
  "removeEventListener l ls = removeAll l ls"

text \<open>
  The closure. \<^verbatim>\<open>touchControls\<close> is the container element on a coarse-pointer device and
  \<^verbatim>\<open>null\<close> otherwise, so it is \<open>isTouch\<close> together with \<open>touchControlsAttached\<close>, which
  says whether the container is still a child of the document body. The colliders are
  of an arbitrary type \<open>'c\<close>: the controller only hands them to the ray caster.
\<close>

record 'c Controls =
  state :: ControlState
  movement :: Movement
  touchMovement :: TouchMovement
  isTouch :: bool
  colliderTargets :: "'c list"
  colliderRadius :: real
  yaw :: real
  pitch :: real
  isPointerLocked :: bool
  deviceOrientation :: "DeviceOrientationEvent option"
  screenOrientation :: real
  lookOffsetYaw :: real
  lookOffsetPitch :: real
  camera :: Camera
  listeners :: "listener list"
  touchControlsAttached :: bool
  movePointerId :: "int option"
  moveCenter :: "real \<times> real"
  moveRadius :: real
  lookPointerId :: "int option"
  lastLook :: "real \<times> real"

text \<open>
  \<^verbatim>\<open>createWalkFlyControls(camera, domElement)\<close>. The environment supplies whether
  \<^verbatim>\<open>DeviceOrientationEvent\<close> exists in \<^verbatim>\<open>window\<close> and whether the pointer is coarse. The
  accumulators are read from the camera's rotation, then the rotation order is set to
  \<^verbatim>\<open>'YXZ'\<close>, which recomputes the quaternion from the same three angles.
\<close>

definition createWalkFlyControls :: "Camera \<Rightarrow> bool \<Rightarrow> bool \<Rightarrow> 'c Controls" where
  "createWalkFlyControls cam available coarse =
     \<lparr>state = \<lparr>flyMode = True, speed = 3, lookSpeed = 0.002, walkHeight = 1.6,
               gyroEnabled = False, gyroAvailable = available\<rparr>,
      movement = \<lparr>forward = 0, backward = 0, left = 0, right = 0, up = 0, down = 0\<rparr>,
      touchMovement = \<lparr>touch_x = 0, touch_z = 0\<rparr>,
      isTouch = coarse,
      colliderTargets = [],
      colliderRadius = 0.35,
      yaw = ey (rotation cam),
      pitch = ex (rotation cam),
      isPointerLocked = False,
      deviceOrientation = None,
      screenOrientation = 0,
      lookOffsetYaw = 0,
      lookOffsetPitch = 0,
      camera = cam\<lparr>quaternion := setFromEuler (rotation cam)\<rparr>,
      listeners =
        [(Document, ''pointerlockchange'', OnPointerLockChange, False),
         (Document, ''mousemove'', OnMouseMove, False),
         (Document, ''keydown'', OnKeyDown, False),
         (Document, ''keyup'', OnKeyUp, False),
         (DomElement, ''click'', RequestPointerLock, False)],
      touchControlsAttached = coarse,
      movePointerId = None,
      moveCenter = (0, 0),
      moveRadius = 0,
      lookPointerId = None,
      lastLook = (0, 0)\<rparr>"

subsection \<open>Look input\<close>

definition updateRotation :: "'c Controls \<Rightarrow> 'c Controls" where
  "updateRotation s =
     (let p = clamp (pitch s) (- pi / 2 + 0.05) (pi / 2 - 0.05)
      in s\<lparr>pitch := p, camera := rotation_set p (yaw s) 0 (camera s)\<rparr>)"

definition onMouseMove :: "real \<Rightarrow> real \<Rightarrow> 'c Controls \<Rightarrow> 'c Controls" where
  "onMouseMove movementX movementY s =
     (if \<not> isPointerLocked s then s
      else if gyroEnabled (state s) then s
      else updateRotation
             (s\<lparr>yaw := yaw s - movementX * lookSpeed (state s),
                pitch := pitch s - movementY * lookSpeed (state s)\<rparr>))"

text \<open>The argument is the value of \<^verbatim>\<open>document.pointerLockElement === domElement\<close>.\<close>

definition onPointerLockChange :: "bool \<Rightarrow> 'c Controls \<Rightarrow> 'c Controls" where
  "onPointerLockChange locked s = s\<lparr>isPointerLocked := locked\<rparr>"

subsection \<open>Keyboard input\<close>

definition onKeyDown :: "string \<Rightarrow> 'c Controls \<Rightarrow> 'c Controls" where
  "onKeyDown code s =
     (if code = ''KeyW'' \<or> code = ''ArrowUp'' then s\<lparr>movement := (movement s)\<lparr>forward := 1\<rparr>\<rparr>
      else if code = ''KeyS'' \<or> code = ''ArrowDown'' then s\<lparr>movement := (movement s)\<lparr>backward := 1\<rparr>\<rparr>
      else if code = ''KeyA'' \<or> code = ''ArrowLeft'' then s\<lparr>movement := (movement s)\<lparr>left := 1\<rparr>\<rparr>
      else if code = ''KeyD'' \<or> code = ''ArrowRight'' then s\<lparr>movement := (movement s)\<lparr>right := 1\<rparr>\<rparr>
      else if code = ''Space'' then s\<lparr>movement := (movement s)\<lparr>up := 1\<rparr>\<rparr>
      else if code = ''ShiftLeft'' \<or> code = ''ShiftRight'' then s\<lparr>movement := (movement s)\<lparr>down := 1\<rparr>\<rparr>
      else s)"

definition onKeyUp :: "string \<Rightarrow> 'c Controls \<Rightarrow> 'c Controls" where
  "onKeyUp code s =
     (if code = ''KeyW'' \<or> code = ''ArrowUp'' then s\<lparr>movement := (movement s)\<lparr>forward := 0\<rparr>\<rparr>
      else if code = ''KeyS'' \<or> code = ''ArrowDown'' then s\<lparr>movement := (movement s)\<lparr>backward := 0\<rparr>\<rparr>
      else if code = ''KeyA'' \<or> code = ''ArrowLeft'' then s\<lparr>movement := (movement s)\<lparr>left := 0\<rparr>\<rparr>
      else if code = ''KeyD'' \<or> code = ''ArrowRight'' then s\<lparr>movement := (movement s)\<lparr>right := 0\<rparr>\<rparr>
      else if code = ''Space'' then s\<lparr>movement := (movement s)\<lparr>up := 0\<rparr>\<rparr>
      else if code = ''ShiftLeft'' \<or> code = ''ShiftRight'' then s\<lparr>movement := (movement s)\<lparr>down := 0\<rparr>\<rparr>
      else s)"

subsection \<open>Touch input\<close>

record DOMRect =
  rect_left :: real
  rect_top :: real
  rect_width :: real
  rect_height :: real

text \<open>
  \<^verbatim>\<open>clamp(d / moveRadius, -1, 1)\<close>. With a zero radius JavaScript divides to an infinity,
  which the clamp brings to 1 or -1; \<^verbatim>\<open>0 / 0\<close> is NaN, which no real number stands for (the
  model takes 0 there). The radius is half the width of the pad's box at the last
  pointer-down, and a pad receives a pointer-down only inside a non-empty box.
\<close>

definition clampedRatio :: "real \<Rightarrow> real \<Rightarrow> real" where
  "clampedRatio d r =
     (if r \<noteq> 0 then clamp (d / r) (-1) 1 else if 0 < d then 1 else if d < 0 then -1 else 0)"

definition updateMove :: "real \<Rightarrow> real \<Rightarrow> 'c Controls \<Rightarrow> 'c Controls" where
  "updateMove clientX clientY s =
     (let dx = clientX - fst (moveCenter s);
          dy = clientY - snd (moveCenter s);
          normalizedX = clampedRatio dx (moveRadius s);
          normalizedY = clampedRatio dy (moveRadius s)
      in s\<lparr>touchMovement := \<lparr>touch_x = normalizedX, touch_z = normalizedY\<rparr>\<rparr>)"

definition movePad_pointerdown ::
  "int \<Rightarrow> real \<Rightarrow> real \<Rightarrow> DOMRect \<Rightarrow> 'c Controls \<Rightarrow> 'c Controls" where
  "movePad_pointerdown pointerId clientX clientY rect s =
     updateMove clientX clientY
       (s\<lparr>movePointerId := Some pointerId,
          moveCenter := (rect_left rect + rect_width rect / 2, rect_top rect + rect_height rect / 2),
          moveRadius := rect_width rect / 2\<rparr>)"

definition movePad_pointermove :: "int \<Rightarrow> real \<Rightarrow> real \<Rightarrow> 'c Controls \<Rightarrow> 'c Controls" where
  "movePad_pointermove pointerId clientX clientY s =
     (if Some pointerId \<noteq> movePointerId s then s else updateMove clientX clientY s)"

definition resetMove :: "'c Controls \<Rightarrow> 'c Controls" where
  "resetMove s = s\<lparr>movePointerId := None, touchMovement := \<lparr>touch_x = 0, touch_z = 0\<rparr>\<rparr>"

definition lookPad_pointerdown :: "int \<Rightarrow> real \<Rightarrow> real \<Rightarrow> 'c Controls \<Rightarrow> 'c Controls" where
  "lookPad_pointerdown pointerId clientX clientY s =
     s\<lparr>lookPointerId := Some pointerId, lastLook := (clientX, clientY)\<rparr>"

definition lookPad_pointermove :: "int \<Rightarrow> real \<Rightarrow> real \<Rightarrow> 'c Controls \<Rightarrow> 'c Controls" where
  "lookPad_pointermove pointerId clientX clientY s =
     (if Some pointerId \<noteq> lookPointerId s then s
      else
        let dx = clientX - fst (lastLook s);
            dy = clientY - snd (lastLook s);
            s1 = s\<lparr>lastLook := (clientX, clientY)\<rparr>
        in if gyroEnabled (state s1)
           then s1\<lparr>lookOffsetYaw := lookOffsetYaw s1 - dx * lookSpeed (state s1) * 1.2,
                   lookOffsetPitch :=
                     clamp (lookOffsetPitch s1 - dy * lookSpeed (state s1) * 1.2) (- pi / 3) (pi / 3)\<rparr>
           else updateRotation
                  (s1\<lparr>yaw := yaw s1 - dx * lookSpeed (state s1) * 1.5,
                      pitch := pitch s1 - dy * lookSpeed (state s1) * 1.5\<rparr>))"

definition resetLook :: "'c Controls \<Rightarrow> 'c Controls" where
  "resetLook s = s\<lparr>lookPointerId := None\<rparr>"

subsection \<open>Orientation from the device sensor\<close>

definition q1 :: Quaternion where
  "q1 = \<lparr>qx = - sqrt 0.5, qy = 0, qz = 0, qw = sqrt 0.5\<rparr>"

definition zee :: Vector3 where
  "zee = vec3 0 0 1"

text \<open>
  The source mutates the camera's quaternion in three steps; each fires the change
  callback, so only the last value of the rotation is observable. The model returns the
  final quaternion.
\<close>

definition setObjectQuaternion :: "real \<Rightarrow> real \<Rightarrow> real \<Rightarrow> real \<Rightarrow> Quaternion" where
  "setObjectQuaternion a b g orient =
     multiply (multiply (setFromEuler \<lparr>ex = b, ey = a, ez = - g\<rparr>) q1)
              (setFromAxisAngle zee (- orient))"

definition orDefault :: "real option \<Rightarrow> real \<Rightarrow> real" where
  "orDefault v d = (case v of None \<Rightarrow> d | Some r \<Rightarrow> r)"

text \<open>The first block of \<^verbatim>\<open>update\<close>: the sensor drives the camera's quaternion.\<close>

definition orientationFusion :: "'c Controls \<Rightarrow> 'c Controls" where
  "orientationFusion s =
     (if gyroEnabled (state s) then
        (case deviceOrientation s of
           None \<Rightarrow> s
         | Some ev \<Rightarrow>
             let a = orDefault (alpha ev) 0 * pi / 180;
                 b = orDefault (beta ev) 0 * pi / 180;
                 g = orDefault (gamma ev) 0 * pi / 180;
                 orient = screenOrientation s * pi / 180;
                 q = setObjectQuaternion a b g orient;
                 qOffset = setFromEuler \<lparr>ex = lookOffsetPitch s, ey = lookOffsetYaw s, ez = 0\<rparr>
             in s\<lparr>camera := quaternion_set (multiply q qOffset) (camera s)\<rparr>)
      else s)"

definition handleDeviceOrientation :: "DeviceOrientationEvent \<Rightarrow> 'c Controls \<Rightarrow> 'c Controls" where
  "handleDeviceOrientation ev s = s\<lparr>deviceOrientation := Some ev\<rparr>"

text \<open>
  The argument is the number the environment gives for
  \<^verbatim>\<open>screen.orientation?.angle ?? window.orientation ?? 0\<close>.
\<close>

definition handleOrientationChange :: "real \<Rightarrow> 'c Controls \<Rightarrow> 'c Controls" where
  "handleOrientationChange angle s = s\<lparr>screenOrientation := angle\<rparr>"

subsection \<open>The per-frame update\<close>

definition inputX :: "'c Controls \<Rightarrow> real" where
  "inputX s = right (movement s) - left (movement s) + touch_x (touchMovement s)"

definition inputZ :: "'c Controls \<Rightarrow> real" where
  "inputZ s = forward (movement s) - backward (movement s) - touch_z (touchMovement s)"

definition inputY :: "'c Controls \<Rightarrow> real" where
  "inputY s = up (movement s) - down (movement s)"

text \<open>The direction vector before the unit clamp, in fly mode and in walk mode.\<close>

definition rawDirection :: "'c Controls \<Rightarrow> Vector3" where
  "rawDirection s =
     (if flyMode (state s) then
        (let fwd = applyEuler (vec3 0 0 (-1)) (rotation (camera s));
             rgt = normalize (crossVectors fwd (vec3 0 1 0));
             d = addScaledVector (addScaledVector (vec3 0 0 0) rgt (inputX s)) fwd (inputZ s)
         in d\<lparr>vy := vy d + inputY s\<rparr>)
      else
        (let fwd = normalize ((getWorldDirection (camera s))\<lparr>vy := 0\<rparr>);
             rgt = normalize (crossVectors fwd (vec3 0 1 0))
         in addScaledVector (addScaledVector (vec3 0 0 0) rgt (inputX s)) fwd (inputZ s)))"

definition moveDirection :: "'c Controls \<Rightarrow> Vector3" where
  "moveDirection s =
     (let direction = rawDirection s
      in if lengthSq direction > 1 then normalize direction else direction)"

text \<open>The position after integration and, in walk mode, the pin to \<open>walkHeight\<close>.\<close>

definition integrate :: "real \<Rightarrow> 'c Controls \<Rightarrow> Vector3" where
  "integrate delta s =
     (let p = addScaledVector (position (camera s)) (moveDirection s) (speed (state s) * delta)
      in if \<not> flyMode (state s) then p\<lparr>vy := walkHeight (state s)\<rparr> else p)"

text \<open>
  The ray caster of the 3D library is a parameter \<open>cast\<close>: for an origin, a unit
  direction and the collider objects it gives the distances of all intersections of the
  ray with the objects and their descendants, in any order. \<^verbatim>\<open>intersectObjects\<close> keeps
  the distances between \<^verbatim>\<open>near\<close> (0) and \<^verbatim>\<open>far\<close> and sorts them in ascending order.
\<close>

type_synonym 'c caster = "Vector3 \<Rightarrow> Vector3 \<Rightarrow> 'c list \<Rightarrow> real list"

definition intersectObjects ::
  "'c caster \<Rightarrow> Vector3 \<Rightarrow> Vector3 \<Rightarrow> real \<Rightarrow> 'c list \<Rightarrow> real list" where
  "intersectObjects cast origin dir far objs =
     sort (filter (\<lambda>d. \<not> (d < 0 \<or> d > far)) (cast origin dir objs))"

definition collisionGuard :: "'c caster \<Rightarrow> 'c Controls \<Rightarrow> Vector3 \<Rightarrow> Vector3 \<Rightarrow> Vector3" where
  "collisionGuard cast s previousPosition p =
     (if length (colliderTargets s) > 0 then
        (let movementDelta = sub p previousPosition;
             distance = vlength movementDelta
         in if distance > 0 then
              (case intersectObjects cast previousPosition (normalize movementDelta)
                      (distance + colliderRadius s) (colliderTargets s) of
                 [] \<Rightarrow> p
               | hit # _ \<Rightarrow> if hit < distance + colliderRadius s then previousPosition else p)
            else p)
      else p)"

definition update :: "'c caster \<Rightarrow> real \<Rightarrow> 'c Controls \<Rightarrow> 'c Controls" where
  "update cast delta s =
     (let s1 = orientationFusion s;
          previousPosition = position (camera s1);
          p = collisionGuard cast s1 previousPosition (integrate delta s1)
      in s1\<lparr>camera := (camera s1)\<lparr>position := p\<rparr>\<rparr>)"

subsection \<open>The rest of the API\<close>

definition dispose :: "'c Controls \<Rightarrow> 'c Controls" where
  "dispose s =
     s\<lparr>listeners :=
         removeEventListener (Window, ''orientationchange'', HandleOrientationChange, False)
           (removeEventListener (Window, ''deviceorientation'', HandleDeviceOrientation, False)
             (removeEventListener (DomElement, ''click'', RequestPointerLock, False)
               (removeEventListener (Document, ''keyup'', OnKeyUp, False)
                 (removeEventListener (Document, ''keydown'', OnKeyDown, False)
                   (removeEventListener (Document, ''mousemove'', OnMouseMove, False)
                     (removeEventListener (Document, ''pointerlockchange'', OnPointerLockChange, False)
                       (listeners s))))))),
       touchControlsAttached := (if isTouch s then False else touchControlsAttached s)\<rparr>"

text \<open>
  What the platform answers to \<^verbatim>\<open>DeviceOrientationEvent.requestPermission()\<close>: the
  function does not exist, the promise resolves to a string, or the call throws or the
  promise rejects.
\<close>

datatype permission = NoRequestPermission | Resolves string | Rejects

text \<open>
  \<^verbatim>\<open>setGyroEnabled\<close> returns the resolved value and the new state. The only suspension
  point is the \<^verbatim>\<open>await\<close> of the permission; nothing is written before it when the sensor
  is available, so the call is modelled as one step taken when the promise settles. The
  real argument is the screen angle that \<^verbatim>\<open>handleOrientationChange\<close> reads.
\<close>

definition setGyroEnabled ::
  "permission \<Rightarrow> real \<Rightarrow> bool \<Rightarrow> 'c Controls \<Rightarrow> bool \<times> 'c Controls" where
  "setGyroEnabled perm angle enabled s =
     (if \<not> gyroAvailable (state s) then (False, s\<lparr>state := (state s)\<lparr>gyroEnabled := False\<rparr>\<rparr>)
      else if enabled \<and> perm \<noteq> NoRequestPermission \<and> perm \<noteq> Resolves ''granted''
        then (False, s\<lparr>state := (state s)\<lparr>gyroEnabled := False\<rparr>\<rparr>)
      else
        let s1 = s\<lparr>state := (state s)\<lparr>gyroEnabled := enabled\<rparr>\<rparr>;
            s2 = (if enabled then
                    (let s3 = handleOrientationChange angle s1
                     in s3\<lparr>listeners :=
                             addEventListener (Window, ''orientationchange'', HandleOrientationChange, False)
                               (addEventListener (Window, ''deviceorientation'', HandleDeviceOrientation, True)
                                  (listeners s3)),
                           yaw := ey (rotation (camera s3)),
                           pitch := ex (rotation (camera s3)),
                           lookOffsetYaw := 0,
                           lookOffsetPitch := 0\<rparr>)
                  else
                    s1\<lparr>listeners :=
                         removeEventListener (Window, ''orientationchange'', HandleOrientationChange, False)
                           (removeEventListener (Window, ''deviceorientation'', HandleDeviceOrientation, False)
                              (listeners s1))\<rparr>)
        in (gyroEnabled (state s2), s2))"

definition setFlyMode :: "bool \<Rightarrow> 'c Controls \<Rightarrow> 'c Controls" where
  "setFlyMode enabled s =
     (let s1 = s\<lparr>state := (state s)\<lparr>flyMode := enabled\<rparr>\<rparr>
      in if \<not> enabled
         then s1\<lparr>camera := (camera s1)\<lparr>position := (position (camera s1))\<lparr>vy := walkHeight (state s1)\<rparr>\<rparr>\<rparr>
         else s1)"

definition setSpeed :: "real \<Rightarrow> 'c Controls \<Rightarrow> 'c Controls" where
  "setSpeed v s = s\<lparr>state := (state s)\<lparr>speed := v\<rparr>\<rparr>"

definition setLookSpeed :: "real \<Rightarrow> 'c Controls \<Rightarrow> 'c Controls" where
  "setLookSpeed v s = s\<lparr>state := (state s)\<lparr>lookSpeed := v\<rparr>\<rparr>"

definition setColliders :: "'c list \<Rightarrow> 'c Controls \<Rightarrow> 'c Controls" where
  "setColliders colliders s = s\<lparr>colliderTargets := [] @ colliders\<rparr>"

definition setColliderRadius :: "real \<Rightarrow> 'c Controls \<Rightarrow> 'c Controls" where
  "setColliderRadius radius s = s\<lparr>colliderRadius := radius\<rparr>"

definition getState :: "'c Controls \<Rightarrow> ControlState" where
  "getState s = state s"

subsection \<open>Runs of the controller\<close>

text \<open>
  Everything that can happen to a controller after its creation: a call of its API, or
  an event of the browser. An event reaches its handler only while the listener is
  registered (for the pads: while the container is in the document). A click on the
  render surface only asks the browser for pointer lock; the answer arrives as a
  pointer-lock-change event.
\<close>

datatype 'c event =
    Update real
  | SetFlyMode bool
  | SetSpeed real
  | SetLookSpeed real
  | SetColliders "'c list"
  | SetColliderRadius real
  | SetGyroEnabled permission real bool
  | Dispose
  | PointerLockChange bool
  | MouseMove real real
  | KeyDown string
  | KeyUp string
  | MovePadDown int real real DOMRect
  | MovePadMove int real real
  | MovePadUp
  | LookPadDown int real real
  | LookPadMove int real real
  | LookPadUp
  | DeviceOrientation DeviceOrientationEvent
  | OrientationChange real

definition registered :: "listener \<Rightarrow> 'c Controls \<Rightarrow> bool" where
  "registered l s = (l \<in> set (listeners s))"

definition padsLive :: "'c Controls \<Rightarrow> bool" where
  "padsLive s = (isTouch s \<and> touchControlsAttached s)"

fun step :: "'c caster \<Rightarrow> 'c event \<Rightarrow> 'c Controls \<Rightarrow> 'c Controls" where
  "step cast (Update delta) s = update cast delta s"
| "step cast (SetFlyMode b) s = setFlyMode b s"
| "step cast (SetSpeed v) s = setSpeed v s"
| "step cast (SetLookSpeed v) s = setLookSpeed v s"
| "step cast (SetColliders cs) s = setColliders cs s"
| "step cast (SetColliderRadius r) s = setColliderRadius r s"
| "step cast (SetGyroEnabled perm angle b) s = snd (setGyroEnabled perm angle b s)"
| "step cast Dispose s = dispose s"
| "step cast (PointerLockChange b) s =
     (if registered (Document, ''pointerlockchange'', OnPointerLockChange, False) s
      then onPointerLockChange b s else s)"
| "step cast (MouseMove mx my) s =
     (if registered (Document, ''mousemove'', OnMouseMove, False) s then onMouseMove mx my s else s)"
| "step cast (KeyDown code) s =
     (if registered (Document, ''keydown'', OnKeyDown, False) s then onKeyDown code s else s)"
| "step cast (KeyUp code) s =
     (if registered (Document, ''keyup'', OnKeyUp, False) s then onKeyUp code s else s)"
| "step cast (MovePadDown i cx cy rect) s =
     (if padsLive s then movePad_pointerdown i cx cy rect s else s)"
| "step cast (MovePadMove i cx cy) s = (if padsLive s then movePad_pointermove i cx cy s else s)"
| "step cast MovePadUp s = (if padsLive s then resetMove s else s)"
| "step cast (LookPadDown i cx cy) s = (if padsLive s then lookPad_pointerdown i cx cy s else s)"
| "step cast (LookPadMove i cx cy) s = (if padsLive s then lookPad_pointermove i cx cy s else s)"
| "step cast LookPadUp s = (if padsLive s then resetLook s else s)"
| "step cast (DeviceOrientation ev) s =
     (if registered (Window, ''deviceorientation'', HandleDeviceOrientation, True) s
      then handleDeviceOrientation ev s else s)"
| "step cast (OrientationChange angle) s =
     (if registered (Window, ''orientationchange'', HandleOrientationChange, False) s
      then handleOrientationChange angle s else s)"

fun run :: "'c caster \<Rightarrow> 'c event list \<Rightarrow> 'c Controls \<Rightarrow> 'c Controls" where
  "run cast [] s = s"
| "run cast (e # es) s = run cast es (step cast e s)"

text \<open>
  A run from creation, and the invariant of walk mode: the camera stands at \<open>walkHeight\<close>.
  The camera is written by the controller only; the application places it at the spawn
  point while the controller is still in its initial fly mode, which the arbitrary
  camera given to \<^verbatim>\<open>createWalkFlyControls\<close> covers.
\<close>

definition runFrom :: "'c caster \<Rightarrow> Camera \<Rightarrow> bool \<Rightarrow> bool \<Rightarrow> 'c event list \<Rightarrow> 'c Controls" where
  "runFrom cast cam available coarse es = run cast es (createWalkFlyControls cam available coarse)"

definition pinned :: "'c Controls \<Rightarrow> bool" where
  "pinned s = (\<not> flyMode (state s) \<longrightarrow> vy (position (camera s)) = walkHeight (state s))"

subsection \<open>Key sequences\<close>

text \<open>
  For the claims about the keyboard: a press or release of a key, the set of keys that
  are held after a sequence of such events, and the last event of the sequence that
  concerns one of the keys of a given set.
\<close>

datatype keyEvent = Press string | Release string

fun keyCode :: "keyEvent \<Rightarrow> string" where
  "keyCode (Press k) = k"
| "keyCode (Release k) = k"

fun isPress :: "keyEvent \<Rightarrow> bool" where
  "isPress (Press k) = True"
| "isPress (Release k) = False"

fun keyStep :: "keyEvent \<Rightarrow> 'c Controls \<Rightarrow> 'c Controls" where
  "keyStep (Press k) s = onKeyDown k s"
| "keyStep (Release k) s = onKeyUp k s"

fun keyRun :: "keyEvent list \<Rightarrow> 'c Controls \<Rightarrow> 'c Controls" where
  "keyRun [] s = s"
| "keyRun (e # es) s = keyRun es (keyStep e s)"

fun held :: "keyEvent list \<Rightarrow> string list \<Rightarrow> string list" where
  "held [] ks = ks"
| "held (Press k # es) ks = held es (k # removeAll k ks)"
| "held (Release k # es) ks = held es (removeAll k ks)"

text \<open>
  The value of a flag whose keys are \<open>ks\<close> after the events \<open>es\<close>, started at \<open>v\<close>: 1 if
  the last event on one of its keys is a press, 0 if it is a release, and \<open>v\<close> if there is
  none.
\<close>

definition lastEdge :: "string list \<Rightarrow> keyEvent list \<Rightarrow> real \<Rightarrow> real" where
  "lastEdge ks es v =
     (case find (\<lambda>e. keyCode e \<in> set ks) (rev es) of
        None \<Rightarrow> v
      | Some e \<Rightarrow> if isPress e then 1 else 0)"

definition knownKeys :: "string list" where
  "knownKeys = [''KeyW'', ''ArrowUp'', ''KeyS'', ''ArrowDown'', ''KeyA'', ''ArrowLeft'',
                ''KeyD'', ''ArrowRight'', ''Space'', ''ShiftLeft'', ''ShiftRight'']"

subsection \<open>Names for the quantities of one frame\<close>

text \<open>
  The local variables of \<^verbatim>\<open>update\<close> that the claims speak about: the position before the
  step, the position after integration, and their difference \<^verbatim>\<open>movementDelta\<close>. The
  nearest hit of a ray is the least non-negative intersection distance, if there is one.
\<close>

definition previousPosition :: "'c Controls \<Rightarrow> Vector3" where
  "previousPosition s = position (camera (orientationFusion s))"

definition candidate :: "real \<Rightarrow> 'c Controls \<Rightarrow> Vector3" where
  "candidate delta s = integrate delta (orientationFusion s)"

definition movementDelta :: "real \<Rightarrow> 'c Controls \<Rightarrow> Vector3" where
  "movementDelta delta s = sub (candidate delta s) (previousPosition s)"

definition nearestHit :: "'c caster \<Rightarrow> Vector3 \<Rightarrow> Vector3 \<Rightarrow> 'c list \<Rightarrow> real option" where
  "nearestHit cast origin dir objs =
     (let ds = filter (\<lambda>d. 0 \<le> d) (cast origin dir objs)
      in if ds = [] then None else Some (Min (set ds)))"

subsection \<open>A concrete scene\<close>

text \<open>
  The camera as the application creates it, at \<open>(0, 1, 5)\<close> and facing \<open>-z\<close>, and a scene
  whose colliders are planes across the \<open>z\<close> axis: the collider \<open>c\<close> is the plane \<open>z = c\<close>,
  which a ray meets at most once.
\<close>

definition camera0 :: Camera where
  "camera0 = \<lparr>position = vec3 0 1 5, rotation = \<lparr>ex = 0, ey = 0, ez = 0\<rparr>,
              quaternion = \<lparr>qx = 0, qy = 0, qz = 0, qw = 1\<rparr>\<rparr>"

definition planeCast :: "real caster" where
  "planeCast origin dir objs =
     concat (map (\<lambda>c. if vz dir \<noteq> 0 \<and> 0 \<le> (c - vz origin) / vz dir
                       then [(c - vz origin) / vz dir] else []) objs)"

definition created0 :: "real Controls" where
  "created0 = createWalkFlyControls camera0 True False"

text \<open>
  The collision scenario: fly mode, W held, the speed 3 of a new controller, and one
  collider plane at \<open>z = 4\<close>, a distance 1 ahead of the camera.
\<close>

definition walkerAtWall :: "real Controls" where
  "walkerAtWall = keyRun [Press ''KeyW''] (setColliders [4] created0)"

text \<open>
  Three more runs from creation: walk mode with W held in front of the same plane; fly
  mode with a negative speed and W held; fly mode with W and D held.
\<close>

definition pacerAtWall :: "real Controls" where
  "pacerAtWall = runFrom planeCast camera0 True False [SetFlyMode False, SetColliders [4], KeyDown ''KeyW'']"

definition backpedal :: "real Controls" where
  "backpedal = runFrom planeCast camera0 True False [SetSpeed (- 3), KeyDown ''KeyW'']"

definition diagonal :: "real Controls" where
  "diagonal = runFrom planeCast camera0 True False [KeyDown ''KeyW'', KeyDown ''KeyD'']"

text \<open>
  Runs with the gyro: the sensor is available and needs no permission. In the first the
  device lies flat, face up (all three angles 0). In the second pointer lock is engaged
  first and the device is held upright with a compass heading of 90 degrees; then one
  frame is rendered and the gyro is switched off again.
\<close>

definition flatDevice :: "real Controls" where
  "flatDevice = runFrom planeCast camera0 True False
     [SetGyroEnabled NoRequestPermission 0 True,
      DeviceOrientation \<lparr>alpha = Some 0, beta = Some 0, gamma = Some 0\<rparr>]"

definition gyroLooking :: "real Controls" where
  "gyroLooking = runFrom planeCast camera0 True False
     [PointerLockChange True,
      SetGyroEnabled NoRequestPermission 0 True,
      DeviceOrientation \<lparr>alpha = Some 90, beta = Some 90, gamma = Some 0\<rparr>]"

definition gyroOffAgain :: "real Controls" where
  "gyroOffAgain = snd (setGyroEnabled NoRequestPermission 0 False (update planeCast (1/60) gyroLooking))"

section \<open>Properties\<close>

subsection \<open>Facts about the concrete scene\<close>

lemma created0_simps:
  "gyroAvailable (state created0)" "\<not> gyroEnabled (state created0)" "\<not> isPointerLocked created0"
  "registered (Document, ''mousemove'', OnMouseMove, False) created0"
  "yaw created0 = 0" "pitch created0 = 0" "lookSpeed (state created0) = 0.002"
  by (simp_all add: created0_def createWalkFlyControls_def camera0_def registered_def)

subsection \<open>Mouse look and the gyro are exclusive\<close>

text \<open>
  Claim C8. While \<open>gyroEnabled\<close> is true a mouse movement leaves the whole state, and so
  the yaw and pitch accumulators and the camera rotation, unchanged. With \<open>gyroEnabled\<close>
  false nothing changes either unless pointer lock is engaged; when it is, the deltas
  scaled by \<open>lookSpeed\<close> are subtracted from the accumulators and the rotation is rewritten.
\<close>

theorem mouse_look_exclusive:
  "(gyroEnabled (state s) \<longrightarrow> step cast (MouseMove mx my) s = s)
   \<and> (\<not> isPointerLocked s \<longrightarrow> step cast (MouseMove mx my) s = s)
   \<and> (\<not> gyroEnabled (state s) \<and> isPointerLocked s
        \<and> registered (Document, ''mousemove'', OnMouseMove, False) s \<longrightarrow>
        step cast (MouseMove mx my) s =
          updateRotation (s\<lparr>yaw := yaw s - mx * lookSpeed (state s),
                            pitch := pitch s - my * lookSpeed (state s)\<rparr>))"
  by (simp add: onMouseMove_def)

theorem mouse_look_exclusive_witness:
  "gyroEnabled (state (snd (setGyroEnabled NoRequestPermission 0 True created0)))
   \<and> step planeCast (MouseMove 5 7) (snd (setGyroEnabled NoRequestPermission 0 True created0))
        = snd (setGyroEnabled NoRequestPermission 0 True created0)
   \<and> \<not> isPointerLocked created0
   \<and> step planeCast (MouseMove 5 7) created0 = created0
   \<and> yaw (step planeCast (MouseMove 5 7) (onPointerLockChange True created0)) = - 0.01
   \<and> pitch (step planeCast (MouseMove 5 7) (onPointerLockChange True created0)) = - 0.014"
proof -
  have g: "gyroEnabled (state (snd (setGyroEnabled NoRequestPermission 0 True created0)))"
    by (simp add: setGyroEnabled_def created0_simps Let_def handleOrientationChange_def)
  have l: "\<not> gyroEnabled (state (onPointerLockChange True created0))
           \<and> isPointerLocked (onPointerLockChange True created0)
           \<and> registered (Document, ''mousemove'', OnMouseMove, False) (onPointerLockChange True created0)"
    using created0_simps by (simp add: onPointerLockChange_def registered_def)
  have p: "- pi / 2 + 0.05 \<le> (- 0.014 :: real)" "(- 0.014 :: real) \<le> pi / 2 - 0.05"
    using pi_ge_two by simp_all
  show ?thesis
    using mouse_look_exclusive [of "snd (setGyroEnabled NoRequestPermission 0 True created0)" planeCast 5 7]
      mouse_look_exclusive [of created0 planeCast 5 7]
      mouse_look_exclusive [of "onPointerLockChange True created0" planeCast 5 7]
      g l p created0_simps
    by (simp add: updateRotation_def onPointerLockChange_def clamp_def Let_def)
qed

subsection \<open>Permission failures resolve to false\<close>

text \<open>
  Claim C6. A call \<open>setGyroEnabled(true)\<close> resolves to false and leaves \<open>gyroEnabled\<close> false
  in the snapshot when the sensor API is unavailable, when the permission request
  resolves to anything but \<open>granted\<close>, and when it throws. The model has no exception to
  propagate: every path of the source returns, and so does the function.
\<close>

theorem setGyroEnabled_failure:
  "\<not> gyroAvailable (state s) \<or> (perm \<noteq> NoRequestPermission \<and> perm \<noteq> Resolves ''granted'')
   \<Longrightarrow> fst (setGyroEnabled perm angle True s) = False
       \<and> gyroEnabled (getState (snd (setGyroEnabled perm angle True s))) = False"
  by (auto simp add: setGyroEnabled_def getState_def)

theorem setGyroEnabled_failure_witness:
  "fst (setGyroEnabled NoRequestPermission 0 True (createWalkFlyControls camera0 False False :: real Controls)) = False
   \<and> fst (setGyroEnabled (Resolves ''denied'') 0 True created0) = False
   \<and> gyroEnabled (getState (snd (setGyroEnabled (Resolves ''denied'') 0 True created0))) = False
   \<and> fst (setGyroEnabled Rejects 0 True created0) = False
   \<and> gyroEnabled (getState (snd (setGyroEnabled Rejects 0 True created0))) = False"
  using setGyroEnabled_failure [of "createWalkFlyControls camera0 False False :: real Controls" NoRequestPermission 0]
    setGyroEnabled_failure [of created0 "Resolves ''denied''" 0]
    setGyroEnabled_failure [of created0 Rejects 0]
  by (simp add: createWalkFlyControls_def)

subsection \<open>Disposal\<close>

text \<open>
  Claim C9. A second \<open>dispose()\<close> changes nothing: the state after two calls, with its
  listener list and the attachment of the touch container, is the state after one.
\<close>

theorem dispose_idempotent: "dispose (dispose s) = dispose s"
  by (simp add: dispose_def removeEventListener_def removeAll_filter_not_eq conj_ac cong: conj_cong)

subsection \<open>Gyro enabled before the first sensor event\<close>

lemma orientationFusion_no_event:
  "gyroEnabled (state s) \<Longrightarrow> deviceOrientation s = None \<Longrightarrow> orientationFusion s = s"
  by (simp add: orientationFusion_def)

lemma orientationFusion_off: "\<not> gyroEnabled (state s) \<Longrightarrow> orientationFusion s = s"
  by (simp add: orientationFusion_def)

lemma integrate_gyro_flag:
  "integrate delta (s\<lparr>state := (state s)\<lparr>gyroEnabled := b\<rparr>\<rparr>) = integrate delta s"
  by (simp add: integrate_def moveDirection_def rawDirection_def inputX_def inputY_def inputZ_def)

lemma collisionGuard_gyro_flag:
  "collisionGuard cast (s\<lparr>state := (state s)\<lparr>gyroEnabled := b\<rparr>\<rparr>) prev p
     = collisionGuard cast s prev p"
  by (simp add: collisionGuard_def Let_def split: list.splits)

text \<open>
  Claim C10. With \<open>gyroEnabled\<close> true and no device-orientation event stored yet, an update
  leaves the camera's quaternion and Euler rotation as they were, and the position it
  commits is the integrated position passed through the collision guard, the same
  position the update commits with the gyro off.
\<close>

theorem update_gyro_without_event:
  assumes "gyroEnabled (state s)" and "deviceOrientation s = None"
  shows "quaternion (camera (update cast delta s)) = quaternion (camera s)
       \<and> rotation (camera (update cast delta s)) = rotation (camera s)
       \<and> position (camera (update cast delta s))
           = collisionGuard cast s (position (camera s)) (integrate delta s)
       \<and> position (camera (update cast delta s))
           = position (camera (update cast delta (s\<lparr>state := (state s)\<lparr>gyroEnabled := False\<rparr>\<rparr>)))"
proof -
  have f: "orientationFusion s = s"
    using assms by (rule orientationFusion_no_event)
  have g: "orientationFusion (s\<lparr>state := (state s)\<lparr>gyroEnabled := False\<rparr>\<rparr>)
            = s\<lparr>state := (state s)\<lparr>gyroEnabled := False\<rparr>\<rparr>"
    by (simp add: orientationFusion_def)
  show ?thesis
    by (simp add: update_def f g Let_def integrate_gyro_flag collisionGuard_gyro_flag)
qed

theorem update_gyro_without_event_witness:
  "quaternion (camera (update planeCast (1/60) (snd (setGyroEnabled NoRequestPermission 0 True created0))))
     = \<lparr>qx = 0, qy = 0, qz = 0, qw = 1\<rparr>"
proof -
  let ?s = "snd (setGyroEnabled NoRequestPermission 0 True created0)"
  have g: "gyroEnabled (state ?s)" "deviceOrientation ?s = None"
    "quaternion (camera ?s) = \<lparr>qx = 0, qy = 0, qz = 0, qw = 1\<rparr>"
    by (simp_all add: setGyroEnabled_def created0_def createWalkFlyControls_def Let_def
        handleOrientationChange_def camera0_def setFromEuler_def)
  show ?thesis
    using update_gyro_without_event [OF g(1) g(2), of planeCast "1/60"] g(3) by simp
qed

subsection \<open>Keyboard flags\<close>

lemma find_snoc:
  "find P (xs @ [y]) = (case find P xs of None \<Rightarrow> (if P y then Some y else None) | Some x \<Rightarrow> Some x)"
  by (induction xs) simp_all

lemma lastEdge_Nil: "lastEdge ks [] v = v"
  by (simp add: lastEdge_def)

lemma lastEdge_Cons:
  "lastEdge ks (e # es) v = lastEdge ks es (if keyCode e \<in> set ks then (if isPress e then 1 else 0) else v)"
  by (simp add: lastEdge_def find_snoc split: option.splits)

lemma keyStep_flags:
  "forward (movement (keyStep e s)) =
     (if keyCode e \<in> set [''KeyW'', ''ArrowUp''] then (if isPress e then 1 else 0) else forward (movement s))"
  "backward (movement (keyStep e s)) =
     (if keyCode e \<in> set [''KeyS'', ''ArrowDown''] then (if isPress e then 1 else 0) else backward (movement s))"
  "left (movement (keyStep e s)) =
     (if keyCode e \<in> set [''KeyA'', ''ArrowLeft''] then (if isPress e then 1 else 0) else left (movement s))"
  "right (movement (keyStep e s)) =
     (if keyCode e \<in> set [''KeyD'', ''ArrowRight''] then (if isPress e then 1 else 0) else right (movement s))"
  "up (movement (keyStep e s)) =
     (if keyCode e \<in> set [''Space''] then (if isPress e then 1 else 0) else up (movement s))"
  "down (movement (keyStep e s)) =
     (if keyCode e \<in> set [''ShiftLeft'', ''ShiftRight''] then (if isPress e then 1 else 0) else down (movement s))"
  "touchMovement (keyStep e s) = touchMovement s"
  by (cases e; simp add: onKeyDown_def onKeyUp_def)+

lemma keyRun_flags:
  "forward (movement (keyRun es s)) = lastEdge [''KeyW'', ''ArrowUp''] es (forward (movement s))"
  "backward (movement (keyRun es s)) = lastEdge [''KeyS'', ''ArrowDown''] es (backward (movement s))"
  "left (movement (keyRun es s)) = lastEdge [''KeyA'', ''ArrowLeft''] es (left (movement s))"
  "right (movement (keyRun es s)) = lastEdge [''KeyD'', ''ArrowRight''] es (right (movement s))"
  "up (movement (keyRun es s)) = lastEdge [''Space''] es (up (movement s))"
  "down (movement (keyRun es s)) = lastEdge [''ShiftLeft'', ''ShiftRight''] es (down (movement s))"
  "touchMovement (keyRun es s) = touchMovement s"
  by (induction es arbitrary: s; simp only: keyRun.simps lastEdge_Nil lastEdge_Cons keyStep_flags)+

lemma unknown_key: "code \<notin> set knownKeys \<Longrightarrow> onKeyDown code s = s \<and> onKeyUp code s = s"
  by (simp add: knownKeys_def onKeyDown_def onKeyUp_def)

lemma lastEdge_single_held:
  "v = (if k \<in> set ks then 1 else 0) \<Longrightarrow> lastEdge [k] es v = (if k \<in> set (held es ks) then 1 else 0)"
proof (induction es arbitrary: ks v)
  case Nil
  then show ?case by (simp add: lastEdge_Nil)
next
  case (Cons e es)
  show ?case
  proof (cases e)
    case (Press k')
    show ?thesis
      unfolding lastEdge_Cons Press held.simps
      by (rule Cons.IH) (use Cons.prems in auto)
  next
    case (Release k')
    show ?thesis
      unfolding lastEdge_Cons Release held.simps
      by (rule Cons.IH) (use Cons.prems in auto)
  qed
qed

text \<open>
  Claim C7, amended. After any sequence of key presses and releases each movement flag
  is 1 exactly when the last press or release among the keys bound to it was a press
  (and keeps its old value when there was none); for the one flag with a single key,
  \<open>up\<close> with Space, that is exactly when the key is held. The input vector before the
  unit clamp is the sum of the flag contributions and the touch axes, and a key outside
  the table changes nothing.
\<close>

theorem key_flags_last_edge:
  "forward (movement (keyRun es s)) = lastEdge [''KeyW'', ''ArrowUp''] es (forward (movement s))
   \<and> backward (movement (keyRun es s)) = lastEdge [''KeyS'', ''ArrowDown''] es (backward (movement s))
   \<and> left (movement (keyRun es s)) = lastEdge [''KeyA'', ''ArrowLeft''] es (left (movement s))
   \<and> right (movement (keyRun es s)) = lastEdge [''KeyD'', ''ArrowRight''] es (right (movement s))
   \<and> up (movement (keyRun es s)) = lastEdge [''Space''] es (up (movement s))
   \<and> down (movement (keyRun es s)) = lastEdge [''ShiftLeft'', ''ShiftRight''] es (down (movement s))
   \<and> (up (movement s) = 0 \<longrightarrow>
        (up (movement (keyRun es s)) = 1 \<longleftrightarrow> ''Space'' \<in> set (held es [])))
   \<and> inputX (keyRun es s)
        = lastEdge [''KeyD'', ''ArrowRight''] es (right (movement s))
          - lastEdge [''KeyA'', ''ArrowLeft''] es (left (movement s)) + touch_x (touchMovement s)
   \<and> inputZ (keyRun es s)
        = lastEdge [''KeyW'', ''ArrowUp''] es (forward (movement s))
          - lastEdge [''KeyS'', ''ArrowDown''] es (backward (movement s)) - touch_z (touchMovement s)
   \<and> inputY (keyRun es s)
        = lastEdge [''Space''] es (up (movement s))
          - lastEdge [''ShiftLeft'', ''ShiftRight''] es (down (movement s))
   \<and> (code \<notin> set knownKeys \<longrightarrow> onKeyDown code s = s \<and> onKeyUp code s = s)"
proof -
  have h: "up (movement s) = 0 \<Longrightarrow> lastEdge [''Space''] es (up (movement s))
             = (if ''Space'' \<in> set (held es []) then 1 else 0)"
    by (rule lastEdge_single_held) simp
  show ?thesis
    using h unknown_key [of code s]
    by (simp add: inputX_def inputY_def inputZ_def keyRun_flags)
qed

text \<open>
  The claim as written fails for a flag with two keys: W is pressed, the up arrow is
  pressed and released, and \<open>forward\<close> is 0 while W is still held.
\<close>

theorem key_flags_held_counterexample:
  "\<not> (forward (movement (keyRun [Press ''KeyW'', Press ''ArrowUp'', Release ''ArrowUp''] created0)) = 1
        \<longleftrightarrow> ''KeyW'' \<in> set (held [Press ''KeyW'', Press ''ArrowUp'', Release ''ArrowUp''] [])
            \<or> ''ArrowUp'' \<in> set (held [Press ''KeyW'', Press ''ArrowUp'', Release ''ArrowUp''] []))"
  by (simp add: onKeyDown_def onKeyUp_def)

theorem key_flags_last_edge_witness:
  "up (movement created0) = 0
   \<and> ''Space'' \<in> set (held [Press ''KeyD'', Press ''Space'', Press ''KeyA'', Release ''KeyA''] [])
   \<and> up (movement (keyRun [Press ''KeyD'', Press ''Space'', Press ''KeyA'', Release ''KeyA''] created0)) = 1
   \<and> inputX (keyRun [Press ''KeyD'', Press ''Space'', Press ''KeyA'', Release ''KeyA''] created0) = 1
   \<and> inputY (keyRun [Press ''KeyD'', Press ''Space'', Press ''KeyA'', Release ''KeyA''] created0) = 1
   \<and> ''KeyQ'' \<notin> set knownKeys
   \<and> onKeyDown ''KeyQ'' created0 = created0"
proof -
  have c: "movement created0 = \<lparr>forward = 0, backward = 0, left = 0, right = 0, up = 0, down = 0\<rparr>"
    "touchMovement created0 = \<lparr>touch_x = 0, touch_z = 0\<rparr>"
    by (simp_all add: created0_def createWalkFlyControls_def)
  have k: "''KeyQ'' \<notin> set knownKeys" by (simp add: knownKeys_def)
  show ?thesis
    using key_flags_last_edge [of "[Press ''KeyD'', Press ''Space'', Press ''KeyA'', Release ''KeyA'']" created0 "''KeyQ''"] k
    by (simp add: c lastEdge_def)
qed

subsection \<open>Vector facts\<close>

lemma Vector3_eq_iff: "(a :: Vector3) = b \<longleftrightarrow> vx a = vx b \<and> vy a = vy b \<and> vz a = vz b"
  by (cases a, cases b) simp

lemma vec3_sel [simp]: "vx (vec3 a b c) = a" "vy (vec3 a b c) = b" "vz (vec3 a b c) = c"
  by (simp_all add: vec3_def)

lemma lengthSq_nonneg: "0 \<le> lengthSq v"
  by (simp add: lengthSq_def)

lemma vlength_nonneg: "0 \<le> vlength v"
  by (simp add: vlength_def lengthSq_nonneg)

lemma lengthSq_zero_iff: "lengthSq v = 0 \<longleftrightarrow> vx v = 0 \<and> vy v = 0 \<and> vz v = 0"
proof -
  have "lengthSq v = (vx v)\<^sup>2 + (vy v)\<^sup>2 + (vz v)\<^sup>2"
    by (simp add: lengthSq_def power2_eq_square)
  then show ?thesis
    by (simp add: sum_power2_eq_zero_iff add_nonneg_eq_0_iff)
qed

lemma vlength_sub_pos_iff: "0 < vlength (sub p q) \<longleftrightarrow> p \<noteq> q"
proof -
  have "vlength (sub p q) = 0 \<longleftrightarrow> p = q"
    by (simp add: vlength_def lengthSq_zero_iff sub_def Vector3_eq_iff)
  then show ?thesis
    using vlength_nonneg [of "sub p q"] by linarith
qed

subsection \<open>The ray caster\<close>

lemma sort_head_Min:
  assumes "sort xs = h # t"
  shows "h \<in> set xs \<and> (\<forall>x \<in> set xs. h \<le> x)"
proof -
  have "sorted (h # t)" using sorted_sort [of xs] assms by simp
  moreover have "set xs = set (h # t)" using set_sort [of "\<lambda>x. x" xs] assms by simp
  ultimately show ?thesis by auto
qed

lemma first_hit_iff:
  "(case intersectObjects cast origin dir far objs of [] \<Rightarrow> False | hit # _ \<Rightarrow> hit < far)
     \<longleftrightarrow> (\<exists>d \<in> set (cast origin dir objs). 0 \<le> d \<and> d < far)"
proof (cases "intersectObjects cast origin dir far objs")
  case Nil
  then have "set (sort (filter (\<lambda>d. \<not> (d < 0 \<or> d > far)) (cast origin dir objs))) = {}"
    by (simp add: intersectObjects_def)
  then have "filter (\<lambda>d. \<not> (d < 0 \<or> d > far)) (cast origin dir objs) = []"
    by (simp only: set_sort set_empty)
  then have "\<forall>d \<in> set (cast origin dir objs). d < 0 \<or> d > far"
    by (simp add: filter_empty_conv)
  with Nil show ?thesis by fastforce
next
  case (Cons h t)
  then have s: "sort (filter (\<lambda>d. \<not> (d < 0 \<or> d > far)) (cast origin dir objs)) = h # t"
    by (simp add: intersectObjects_def)
  from sort_head_Min [OF s]
  have h: "h \<in> set (cast origin dir objs)" "0 \<le> h" "h \<le> far"
    and m: "\<forall>x \<in> set (cast origin dir objs). 0 \<le> x \<and> x \<le> far \<longrightarrow> h \<le> x"
    by auto
  show ?thesis
  proof
    assume "case intersectObjects cast origin dir far objs of [] \<Rightarrow> False | hit # _ \<Rightarrow> hit < far"
    with Cons have "h < far" by simp
    with h show "\<exists>d \<in> set (cast origin dir objs). 0 \<le> d \<and> d < far" by blast
  next
    assume "\<exists>d \<in> set (cast origin dir objs). 0 \<le> d \<and> d < far"
    then obtain d where "d \<in> set (cast origin dir objs)" "0 \<le> d" "d < far" by blast
    with m have "h < far" by fastforce
    with Cons show "case intersectObjects cast origin dir far objs of [] \<Rightarrow> False | hit # _ \<Rightarrow> hit < far"
      by simp
  qed
qed

lemma nearestHit_iff:
  "(\<exists>d. nearestHit cast origin dir objs = Some d \<and> d < far)
     \<longleftrightarrow> (\<exists>d \<in> set (cast origin dir objs). 0 \<le> d \<and> d < far)"
proof (cases "filter (\<lambda>d. 0 \<le> d) (cast origin dir objs) = []")
  case True
  then have "\<forall>d \<in> set (cast origin dir objs). \<not> 0 \<le> d"
    by (simp add: filter_empty_conv)
  with True show ?thesis by (auto simp add: nearestHit_def)
next
  case False
  let ?S = "set (filter (\<lambda>d. 0 \<le> d) (cast origin dir objs))"
  have fin: "finite ?S" "?S \<noteq> {}"
    using False set_empty [of "filter (\<lambda>d. 0 \<le> d) (cast origin dir objs)"] by blast+
  have n: "nearestHit cast origin dir objs = Some (Min ?S)"
    using False by (simp add: nearestHit_def)
  have m: "Min ?S < far \<longleftrightarrow> (\<exists>d \<in> ?S. d < far)"
    using fin by (rule Min_less_iff)
  have e: "(\<exists>d \<in> ?S. d < far) \<longleftrightarrow> (\<exists>d \<in> set (cast origin dir objs). 0 \<le> d \<and> d < far)"
    by auto
  show ?thesis
    unfolding n using m e by simp
qed

lemma collisionGuard_cases:
  assumes "colliderTargets s \<noteq> []" and "p \<noteq> prev"
  shows "collisionGuard cast s prev p =
           (if \<exists>d. nearestHit cast prev (normalize (sub p prev)) (colliderTargets s) = Some d
                    \<and> d < vlength (sub p prev) + colliderRadius s
            then prev else p)"
proof -
  have pos: "0 < vlength (sub p prev)" using assms(2) by (simp add: vlength_sub_pos_iff)
  let ?far = "vlength (sub p prev) + colliderRadius s"
  let ?hits = "intersectObjects cast prev (normalize (sub p prev)) ?far (colliderTargets s)"
  have "collisionGuard cast s prev p = (case ?hits of [] \<Rightarrow> p | hit # _ \<Rightarrow> if hit < ?far then prev else p)"
    using assms(1) pos by (simp add: collisionGuard_def Let_def)
  also have "\<dots> = (if (case ?hits of [] \<Rightarrow> False | hit # _ \<Rightarrow> hit < ?far) then prev else p)"
    by (simp split: list.splits)
  finally show ?thesis
    by (simp only: first_hit_iff nearestHit_iff)
qed

lemma update_position:
  "position (camera (update cast delta s))
     = collisionGuard cast (orientationFusion s) (previousPosition s) (candidate delta s)"
  by (simp add: update_def Let_def previousPosition_def candidate_def)

lemma orientationFusion_colliders:
  "colliderTargets (orientationFusion s) = colliderTargets s"
  "colliderRadius (orientationFusion s) = colliderRadius s"
  "state (orientationFusion s) = state s"
  "position (camera (orientationFusion s)) = position (camera s)"
  by (simp_all add: orientationFusion_def quaternion_set_def Let_def split: option.splits)

subsection \<open>The collision scenario\<close>

lemma vlength_axis_z: "vlength (vec3 0 0 c) = \<bar>c\<bar>"
  by (simp add: vlength_def lengthSq_def)

lemma normalize_axis_z: "c < 0 \<Longrightarrow> normalize (vec3 0 0 c) = vec3 0 0 (-1)"
proof -
  assume c: "c < 0"
  then have "vlength (vec3 0 0 c) = - c" by (simp add: vlength_axis_z)
  with c show ?thesis by (simp add: normalize_def multiplyScalar_def)
qed

lemma walkerAtWall_simps:
  "colliderTargets walkerAtWall = [4]"
  "colliderRadius walkerAtWall = 0.35"
  "orientationFusion walkerAtWall = walkerAtWall"
  "position (camera walkerAtWall) = vec3 0 1 5"
  "flyMode (state walkerAtWall)"
  "speed (state walkerAtWall) = 3"
  by (simp_all add: walkerAtWall_def setColliders_def created0_def createWalkFlyControls_def
      onKeyDown_def camera0_def orientationFusion_def)

lemma walkerAtWall_direction: "moveDirection walkerAtWall = vec3 0 0 (-1)"
  by (simp add: moveDirection_def rawDirection_def walkerAtWall_def setColliders_def created0_def
      createWalkFlyControls_def onKeyDown_def camera0_def inputX_def inputY_def inputZ_def
      applyEuler_def applyQuaternion_def setFromEuler_def crossVectors_def normalize_def
      vlength_def lengthSq_def multiplyScalar_def addScaledVector_def Let_def vec3_def)

lemma walkerAtWall_candidate: "candidate delta walkerAtWall = vec3 0 1 (5 - 3 * delta)"
  by (simp add: candidate_def integrate_def walkerAtWall_simps walkerAtWall_direction
      addScaledVector_def Let_def vec3_def)

lemma walkerAtWall_delta: "movementDelta delta walkerAtWall = vec3 0 0 (- (3 * delta))"
  by (simp add: movementDelta_def walkerAtWall_candidate previousPosition_def walkerAtWall_simps sub_def)

lemma walkerAtWall_nearest:
  "0 < delta \<Longrightarrow>
   nearestHit planeCast (previousPosition walkerAtWall) (normalize (movementDelta delta walkerAtWall))
     (colliderTargets walkerAtWall) = Some 1"
  by (simp add: walkerAtWall_delta normalize_axis_z previousPosition_def walkerAtWall_simps
      nearestHit_def planeCast_def)

subsection \<open>The collision guard\<close>

text \<open>
  Claim C3. In an update with at least one collider registered and a candidate position
  different from the position before the step, the committed position is the position
  before the step (the camera's own, untouched) exactly when the nearest hit of the ray from that position along the
  normalised displacement is nearer than the displacement length plus the clearance
  radius; otherwise the committed position is the candidate. With a plane 1.0 ahead and
  radius 0.35 a step of 0.9 is rejected and a step of 0.5 is accepted, as the instance
  after the theorem shows.
\<close>

theorem collision_guard_iff:
  assumes "colliderTargets s \<noteq> []" and "candidate delta s \<noteq> previousPosition s"
  shows "(position (camera (update cast delta s)) = previousPosition s
            \<longleftrightarrow> (\<exists>d. nearestHit cast (previousPosition s) (normalize (movementDelta delta s))
                         (colliderTargets s) = Some d
                     \<and> d < vlength (movementDelta delta s) + colliderRadius s))
       \<and> (position (camera (update cast delta s)) \<noteq> previousPosition s
            \<longrightarrow> position (camera (update cast delta s)) = candidate delta s)
       \<and> previousPosition s = position (camera s)"
proof -
  have c: "colliderTargets (orientationFusion s) \<noteq> []"
    using assms(1) by (simp add: orientationFusion_colliders)
  have p: "previousPosition s = position (camera s)"
    by (simp add: previousPosition_def orientationFusion_colliders)
  show ?thesis
    unfolding update_position collisionGuard_cases [OF c assms(2)] movementDelta_def
    using assms(2) p by (simp add: orientationFusion_colliders)
qed

theorem collision_guard_iff_witness:
  "colliderTargets walkerAtWall \<noteq> []
   \<and> vlength (movementDelta 0.3 walkerAtWall) = 0.9
   \<and> position (camera (update planeCast 0.3 walkerAtWall)) = vec3 0 1 5
   \<and> vlength (movementDelta (1/6) walkerAtWall) = 0.5
   \<and> position (camera (update planeCast (1/6) walkerAtWall)) = vec3 0 1 4.5"
proof -
  have c: "colliderTargets walkerAtWall \<noteq> []" by (simp add: walkerAtWall_simps)
  have n: "candidate 0.3 walkerAtWall \<noteq> previousPosition walkerAtWall"
    "candidate (1/6) walkerAtWall \<noteq> previousPosition walkerAtWall"
    by (simp_all add: walkerAtWall_candidate previousPosition_def walkerAtWall_simps vec3_def)
  have l: "vlength (movementDelta 0.3 walkerAtWall) = 0.9"
    "vlength (movementDelta (1/6) walkerAtWall) = 0.5"
    by (simp_all add: walkerAtWall_delta vlength_axis_z)
  have h: "nearestHit planeCast (previousPosition walkerAtWall)
             (normalize (movementDelta 0.3 walkerAtWall)) (colliderTargets walkerAtWall) = Some 1"
    "nearestHit planeCast (previousPosition walkerAtWall)
             (normalize (movementDelta (1/6) walkerAtWall)) (colliderTargets walkerAtWall) = Some 1"
    by (simp_all add: walkerAtWall_nearest)
  note rejected = collision_guard_iff [OF c n(1), of planeCast, unfolded h l]
  note accepted = collision_guard_iff [OF c n(2), of planeCast, unfolded h l]
  show ?thesis
    using rejected accepted
    by (simp add: l walkerAtWall_simps walkerAtWall_candidate previousPosition_def vec3_def)
qed

subsection \<open>The unit clamp and the walk-mode invariant\<close>

lemma lengthSq_multiplyScalar: "lengthSq (multiplyScalar v k) = k * k * lengthSq v"
  by (simp add: lengthSq_def multiplyScalar_def algebra_simps)

lemma vlength_multiplyScalar: "vlength (multiplyScalar v k) = \<bar>k\<bar> * vlength v"
  by (simp add: vlength_def lengthSq_multiplyScalar real_sqrt_mult)

lemma vlength_normalize: "vlength v \<noteq> 0 \<Longrightarrow> vlength (normalize v) = 1"
  using vlength_nonneg [of v] by (simp add: normalize_def vlength_multiplyScalar)

lemma vlength_normalize_zero: "vlength v = 0 \<Longrightarrow> vlength (normalize v) = 0"
  by (simp add: normalize_def vlength_multiplyScalar)

lemma vlength_le_1_iff: "vlength v \<le> 1 \<longleftrightarrow> lengthSq v \<le> 1"
  by (simp add: vlength_def)

lemma moveDirection_unit_clamped: "vlength (moveDirection s) \<le> 1"
proof (cases "lengthSq (rawDirection s) > 1")
  case True
  then have "vlength (rawDirection s) \<noteq> 0" by (simp add: vlength_def)
  with True show ?thesis by (simp add: moveDirection_def vlength_normalize)
next
  case False
  then show ?thesis by (simp add: moveDirection_def vlength_le_1_iff)
qed

lemma sub_addScaledVector: "sub (addScaledVector p d k) p = multiplyScalar d k"
  by (simp add: sub_def addScaledVector_def multiplyScalar_def)

lemma vy_normalize: "vy v = 0 \<Longrightarrow> vy (normalize v) = 0"
  by (simp add: normalize_def multiplyScalar_def)

lemma rawDirection_walk_level: "\<not> flyMode (state s) \<Longrightarrow> vy (rawDirection s) = 0"
  by (simp add: rawDirection_def Let_def addScaledVector_def crossVectors_def vy_normalize)

lemma moveDirection_walk_level: "\<not> flyMode (state s) \<Longrightarrow> vy (moveDirection s) = 0"
  by (simp add: moveDirection_def Let_def rawDirection_walk_level vy_normalize)

lemma integrate_step:
  assumes "pinned s"
  shows "integrate delta s = addScaledVector (position (camera s)) (moveDirection s) (speed (state s) * delta)"
proof (cases "flyMode (state s)")
  case True
  then show ?thesis by (simp add: integrate_def)
next
  case False
  with assms have "vy (position (camera s)) = walkHeight (state s)" by (simp add: pinned_def)
  with False show ?thesis
    by (simp add: integrate_def Let_def addScaledVector_def moveDirection_walk_level Vector3_eq_iff)
qed

lemma integrate_walk_height: "\<not> flyMode (state s) \<Longrightarrow> vy (integrate delta s) = walkHeight (state s)"
  by (simp add: integrate_def Let_def)

lemma collisionGuard_either: "collisionGuard cast s prev p = prev \<or> collisionGuard cast s prev p = p"
  by (simp add: collisionGuard_def Let_def split: list.splits)

lemma pinned_fusion: "pinned (orientationFusion s) = pinned s"
  by (simp add: pinned_def orientationFusion_colliders)

lemma update_state: "state (update cast delta s) = state s"
  by (simp add: update_def Let_def orientationFusion_colliders)

lemma pinned_update: assumes "pinned s" shows "pinned (update cast delta s)"
proof (cases "flyMode (state s)")
  case True
  then show ?thesis by (simp add: pinned_def update_state)
next
  case False
  have p: "vy (previousPosition s) = walkHeight (state s)"
    using assms False by (simp add: pinned_def previousPosition_def orientationFusion_colliders)
  have c: "vy (candidate delta s) = walkHeight (state s)"
    using False by (simp add: candidate_def integrate_walk_height orientationFusion_colliders)
  from collisionGuard_either [of cast "orientationFusion s" "previousPosition s" "candidate delta s"] p c
  have "vy (position (camera (update cast delta s))) = walkHeight (state s)"
    unfolding update_position by auto
  then show ?thesis by (simp add: pinned_def update_state)
qed

lemma pinned_updateRotation: "pinned (updateRotation s) = pinned s"
  by (simp add: pinned_def updateRotation_def rotation_set_def Let_def)

lemma pinned_step: "pinned s \<Longrightarrow> pinned (step cast e s)"
proof (cases e)
  case (Update delta)
  assume "pinned s"
  with Update show ?thesis by (simp add: pinned_update)
next
  case (SetFlyMode b)
  assume "pinned s"
  with SetFlyMode show ?thesis by (simp add: pinned_def setFlyMode_def Let_def)
next
  case (SetGyroEnabled perm angle b)
  assume "pinned s"
  with SetGyroEnabled show ?thesis
    by (simp add: pinned_def setGyroEnabled_def Let_def handleOrientationChange_def)
next
  case (MouseMove mx my)
  assume "pinned s"
  then have "pinned (s\<lparr>yaw := yaw s - mx * lookSpeed (state s), pitch := pitch s - my * lookSpeed (state s)\<rparr>)"
    by (simp add: pinned_def)
  with \<open>pinned s\<close> MouseMove show ?thesis
    by (simp add: onMouseMove_def pinned_updateRotation)
next
  case (LookPadMove i cx cy)
  assume p: "pinned s"
  show ?thesis
    unfolding LookPadMove step.simps lookPad_pointermove_def Let_def
    using p by (simp add: pinned_updateRotation) (simp add: pinned_def)
qed (simp_all add: pinned_def setSpeed_def setLookSpeed_def setColliders_def setColliderRadius_def
      dispose_def onPointerLockChange_def onKeyDown_def onKeyUp_def movePad_pointerdown_def
      movePad_pointermove_def updateMove_def resetMove_def lookPad_pointerdown_def resetLook_def
      handleDeviceOrientation_def handleOrientationChange_def Let_def)

lemma pinned_run: "pinned s \<Longrightarrow> pinned (run cast es s)"
  by (induction es arbitrary: s) (simp_all add: pinned_step)

lemma pinned_created: "pinned (createWalkFlyControls cam available coarse)"
  by (simp add: pinned_def createWalkFlyControls_def)

subsection \<open>Walk height\<close>

lemmas scene_defs = runFrom_def createWalkFlyControls_def camera0_def registered_def
  setFlyMode_def setColliders_def setSpeed_def onKeyDown_def

lemma pacerAtWall_simps:
  "colliderTargets pacerAtWall = [4]"
  "colliderRadius pacerAtWall = 0.35"
  "orientationFusion pacerAtWall = pacerAtWall"
  "position (camera pacerAtWall) = vec3 0 1.6 5"
  "\<not> flyMode (state pacerAtWall)"
  "speed (state pacerAtWall) = 3"
  "walkHeight (state pacerAtWall) = 1.6"
  by (simp_all add: pacerAtWall_def scene_defs orientationFusion_def vec3_def)

lemma pacerAtWall_direction: "moveDirection pacerAtWall = vec3 0 0 (-1)"
  by (simp add: moveDirection_def rawDirection_def pacerAtWall_def scene_defs
      inputX_def inputY_def inputZ_def getWorldDirection_def setFromEuler_def crossVectors_def
      normalize_def vlength_def lengthSq_def multiplyScalar_def addScaledVector_def Let_def vec3_def)

lemma pacerAtWall_candidate: "candidate delta pacerAtWall = vec3 0 1.6 (5 - 3 * delta)"
  by (simp add: candidate_def integrate_def pacerAtWall_simps pacerAtWall_direction
      addScaledVector_def Let_def vec3_def)

lemma pacerAtWall_rollback: "position (camera (update planeCast 0.3 pacerAtWall)) = vec3 0 1.6 5"
proof -
  have c: "colliderTargets (orientationFusion pacerAtWall) \<noteq> []"
    by (simp add: pacerAtWall_simps)
  have n: "candidate 0.3 pacerAtWall \<noteq> previousPosition pacerAtWall"
    by (simp add: pacerAtWall_candidate previousPosition_def pacerAtWall_simps vec3_def)
  have d: "sub (candidate 0.3 pacerAtWall) (previousPosition pacerAtWall) = vec3 0 0 (- 0.9)"
    by (simp add: pacerAtWall_candidate previousPosition_def pacerAtWall_simps sub_def)
  have h: "nearestHit planeCast (previousPosition pacerAtWall) (vec3 0 0 (-1)) [4] = Some 1"
    by (simp add: previousPosition_def pacerAtWall_simps nearestHit_def planeCast_def)
  show ?thesis
    unfolding update_position collisionGuard_cases [OF c n] d
    by (simp add: normalize_axis_z vlength_axis_z pacerAtWall_simps h) (simp add: previousPosition_def pacerAtWall_simps)
qed

lemma pinned_start:
  "flyMode (state s) \<or> vy (position (camera s)) = walkHeight (state s) \<Longrightarrow> pinned (run cast es s)"
  by (rule pinned_run) (auto simp add: pinned_def)

text \<open>
  Claim C2. Start from a controller that is in fly mode or stands at \<open>walkHeight\<close>: a new
  controller, or one whose camera the application has just placed while fly mode was
  still on. After any sequence of API calls and browser events, an update made while
  \<open>flyMode\<close> is false returns with the camera's vertical position equal to \<open>walkHeight\<close>. A
  frame whose step the collision guard rejects restores the position before the step,
  which stood at \<open>walkHeight\<close> already; the instance after the theorem is such a frame.
\<close>

theorem walk_height_pinned:
  assumes "flyMode (state s) \<or> vy (position (camera s)) = walkHeight (state s)"
    and "\<not> flyMode (state (run cast es s))"
  shows "flyMode (state (createWalkFlyControls cam available coarse :: 'c Controls))
       \<and> vy (position (camera (update cast delta (run cast es s))))
           = walkHeight (state (update cast delta (run cast es s)))"
  using pinned_update [OF pinned_start [OF assms(1), of cast es], of cast delta] assms(2)
  by (simp add: pinned_def update_state createWalkFlyControls_def)

theorem walk_height_pinned_witness:
  "\<not> flyMode (state pacerAtWall)
   \<and> candidate 0.3 pacerAtWall = vec3 0 1.6 4.1
   \<and> position (camera (update planeCast 0.3 pacerAtWall)) = position (camera pacerAtWall)
   \<and> vy (position (camera (update planeCast 0.3 pacerAtWall)))
       = walkHeight (state (update planeCast 0.3 pacerAtWall))"
proof -
  have n: "flyMode (state (createWalkFlyControls camera0 True False :: real Controls))
           \<or> vy (position (camera (createWalkFlyControls camera0 True False :: real Controls)))
               = walkHeight (state (createWalkFlyControls camera0 True False :: real Controls))"
    by (simp add: createWalkFlyControls_def)
  have f: "\<not> flyMode (state (run planeCast [SetFlyMode False, SetColliders [4], KeyDown ''KeyW'']
             (createWalkFlyControls camera0 True False)))"
    by (fold runFrom_def, fold pacerAtWall_def) (rule pacerAtWall_simps(5))
  note walk_height_pinned [OF n f, of camera0 True False "0.3", folded runFrom_def, folded pacerAtWall_def,
      THEN conjunct2]
  then show ?thesis
    by (simp add: pacerAtWall_simps pacerAtWall_candidate pacerAtWall_rollback)
qed

subsection \<open>Rotations keep the length of the forward vector\<close>

lemma unit_quaternion_poly:
  fixes c1 c2 c3 s1 s2 s3 :: real
  assumes "s1 * s1 + c1 * c1 = 1" "s2 * s2 + c2 * c2 = 1" "s3 * s3 + c3 * c3 = 1"
  shows "(s1 * c2 * c3 + c1 * s2 * s3) * (s1 * c2 * c3 + c1 * s2 * s3)
       + (c1 * s2 * c3 - s1 * c2 * s3) * (c1 * s2 * c3 - s1 * c2 * s3)
       + (c1 * c2 * s3 - s1 * s2 * c3) * (c1 * c2 * s3 - s1 * s2 * c3)
       + (c1 * c2 * c3 + s1 * s2 * s3) * (c1 * c2 * c3 + s1 * s2 * s3) = 1"
proof -
  have "(s1 * c2 * c3 + c1 * s2 * s3) * (s1 * c2 * c3 + c1 * s2 * s3)
       + (c1 * s2 * c3 - s1 * c2 * s3) * (c1 * s2 * c3 - s1 * c2 * s3)
       + (c1 * c2 * s3 - s1 * s2 * c3) * (c1 * c2 * s3 - s1 * s2 * c3)
       + (c1 * c2 * c3 + s1 * s2 * s3) * (c1 * c2 * c3 + s1 * s2 * s3)
       = (s1 * s1 + c1 * c1) * (s2 * s2 + c2 * c2) * (s3 * s3 + c3 * c3)"
    by (simp add: algebra_simps)
  then show ?thesis by (simp add: assms)
qed

lemma sin_cos_sq: "sin (x::real) * sin x + cos x * cos x = 1"
  using sin_cos_squared_add [of x] by (simp add: power2_eq_square)

lemma setFromEuler_unit:
  "qx (setFromEuler e) * qx (setFromEuler e) + qy (setFromEuler e) * qy (setFromEuler e)
   + qz (setFromEuler e) * qz (setFromEuler e) + qw (setFromEuler e) * qw (setFromEuler e) = 1"
  unfolding setFromEuler_def Let_def Quaternion.simps
  by (rule unit_quaternion_poly) (rule sin_cos_sq)+

lemma rotated_axis_poly:
  fixes x y z w :: real
  assumes "x * x + y * y + z * z + w * w = 1"
  shows "(- (2 * (w * y) + 2 * (x * z))) * (- (2 * (w * y) + 2 * (x * z)))
       + (2 * (w * x) - 2 * (y * z)) * (2 * (w * x) - 2 * (y * z))
       + (- (1 - 2 * (x * x + y * y))) * (- (1 - 2 * (x * x + y * y))) = 1"
proof -
  have "(- (2 * (w * y) + 2 * (x * z))) * (- (2 * (w * y) + 2 * (x * z)))
       + (2 * (w * x) - 2 * (y * z)) * (2 * (w * x) - 2 * (y * z))
       + (- (1 - 2 * (x * x + y * y))) * (- (1 - 2 * (x * x + y * y)))
       = 1 + 4 * (x * x + y * y) * (x * x + y * y + z * z + w * w - 1)"
    by (simp add: algebra_simps)
  then show ?thesis by (simp add: assms)
qed

lemma applyQuaternion_forward:
  "applyQuaternion (vec3 0 0 (-1)) q
     = vec3 (- (2 * (qw q * qy q) + 2 * (qx q * qz q)))
            (2 * (qw q * qx q) - 2 * (qy q * qz q))
            (- (1 - 2 * (qx q * qx q + qy q * qy q)))"
  by (simp add: applyQuaternion_def Let_def vec3_def algebra_simps)

lemma forward_unit: "lengthSq (applyEuler (vec3 0 0 (-1)) e) = 1"
  unfolding applyEuler_def applyQuaternion_forward lengthSq_def vec3_sel
  by (rule rotated_axis_poly [OF setFromEuler_unit])

subsection \<open>Displacement of one frame\<close>

lemma vlength_sq: "vlength v * vlength v = lengthSq v"
  by (simp add: vlength_def lengthSq_nonneg)

lemma update_displacement:
  assumes "pinned s"
  shows "sub (candidate delta s) (previousPosition s)
           = multiplyScalar (moveDirection (orientationFusion s)) (speed (state s) * delta)"
proof -
  have "pinned (orientationFusion s)" using assms by (simp add: pinned_fusion)
  from integrate_step [OF this, of delta] show ?thesis
    by (simp add: candidate_def previousPosition_def sub_addScaledVector orientationFusion_colliders)
qed

lemma vlength_zero_vec: "vlength (sub p p) = 0"
  by (simp add: vlength_def lengthSq_def sub_def)

lemma update_bound:
  assumes "pinned s"
  shows "vlength (sub (position (camera (update cast delta s))) (position (camera s)))
           \<le> \<bar>speed (state s) * delta\<bar>"
proof -
  have prev: "previousPosition s = position (camera s)"
    by (simp add: previousPosition_def orientationFusion_colliders)
  have "vlength (sub (candidate delta s) (previousPosition s))
          = \<bar>speed (state s) * delta\<bar> * vlength (moveDirection (orientationFusion s))"
    by (simp only: update_displacement [OF assms] vlength_multiplyScalar)
  also have "\<dots> \<le> \<bar>speed (state s) * delta\<bar> * 1"
    by (rule mult_left_mono) (simp_all add: moveDirection_unit_clamped)
  finally have c: "vlength (sub (candidate delta s) (position (camera s))) \<le> \<bar>speed (state s) * delta\<bar>"
    by (simp add: prev)
  from collisionGuard_either [of cast "orientationFusion s" "previousPosition s" "candidate delta s"]
  show ?thesis
    unfolding update_position prev
    using c by (auto simp add: vlength_zero_vec)
qed

lemma orientationFusion_inputs:
  "movement (orientationFusion s) = movement s"
  "touchMovement (orientationFusion s) = touchMovement s"
  by (simp_all add: orientationFusion_def Let_def split: option.splits)

lemma lengthSq_normalize_cases: "lengthSq (normalize v) = 0 \<or> lengthSq (normalize v) = 1"
proof (cases "vlength v = 0")
  case True
  then have "vlength (normalize v) * vlength (normalize v) = 0" by (simp add: vlength_normalize_zero)
  then show ?thesis by (simp only: vlength_sq) simp
next
  case False
  then have "vlength (normalize v) * vlength (normalize v) = 1" by (simp add: vlength_normalize)
  then show ?thesis by (simp only: vlength_sq) simp
qed

lemma diagonal_direction_unit:
  assumes "flyMode (state s)"
    and "movement s = \<lparr>forward = 1, backward = 0, left = 0, right = 1, up = 0, down = 0\<rparr>"
    and "touchMovement s = \<lparr>touch_x = 0, touch_z = 0\<rparr>"
  shows "vlength (moveDirection s) = 1"
proof -
  define f where "f = applyEuler (vec3 0 0 (-1)) (rotation (camera s))"
  define r where "r = normalize (crossVectors f (vec3 0 1 0))"
  have f1: "lengthSq f = 1" unfolding f_def by (rule forward_unit)
  have dot: "vx r * vx f + vy r * vy f + vz r * vz f = 0"
    by (simp add: r_def normalize_def multiplyScalar_def crossVectors_def)
  have raw: "rawDirection s = vec3 (vx r + vx f) (vy r + vy f) (vz r + vz f)"
    unfolding f_def r_def using assms
    by (simp add: rawDirection_def Let_def inputX_def inputY_def inputZ_def addScaledVector_def vec3_def)
  have "lengthSq (rawDirection s)
          = lengthSq r + lengthSq f + 2 * (vx r * vx f + vy r * vy f + vz r * vz f)"
    by (simp add: raw lengthSq_def algebra_simps)
  then have l: "lengthSq (rawDirection s) = lengthSq r + 1"
    by (simp add: dot f1)
  from lengthSq_normalize_cases [of "crossVectors f (vec3 0 1 0)"]
  have "lengthSq r = 0 \<or> lengthSq r = 1" by (simp add: r_def)
  then show ?thesis
  proof
    assume "lengthSq r = 0"
    with l have "lengthSq (rawDirection s) = 1" by simp
    then show ?thesis by (simp add: moveDirection_def vlength_def)
  next
    assume "lengthSq r = 1"
    with l have two: "lengthSq (rawDirection s) = 2" by simp
    then have "vlength (rawDirection s) \<noteq> 0" by (simp add: vlength_def)
    then show ?thesis by (simp add: moveDirection_def two vlength_normalize)
  qed
qed

lemma diagonal_displacement:
  assumes "flyMode (state s)"
    and "movement s = \<lparr>forward = 1, backward = 0, left = 0, right = 1, up = 0, down = 0\<rparr>"
    and "touchMovement s = \<lparr>touch_x = 0, touch_z = 0\<rparr>"
    and "colliderTargets s = []"
  shows "vlength (sub (position (camera (update cast delta s))) (position (camera s)))
           = \<bar>speed (state s) * delta\<bar>"
proof -
  have p: "pinned s" using assms(1) by (simp add: pinned_def)
  have u: "vlength (moveDirection (orientationFusion s)) = 1"
    by (rule diagonal_direction_unit) (simp_all add: assms orientationFusion_colliders orientationFusion_inputs)
  have "position (camera (update cast delta s)) = candidate delta s"
    by (simp add: update_position collisionGuard_def assms(4) orientationFusion_colliders)
  moreover have "previousPosition s = position (camera s)"
    by (simp add: previousPosition_def orientationFusion_colliders)
  ultimately show ?thesis
    using update_displacement [OF p, of delta] by (simp add: vlength_multiplyScalar u)
qed

text \<open>
  Claim C5, amended. The direction vector has length at most 1 after the clamp. From a
  controller that is in fly mode or stands at \<open>walkHeight\<close> (a new one, for instance) and
  after any sequence of API calls and browser events, the candidate displacement of a
  frame is that vector scaled by \<open>speed * delta\<close>, and the committed displacement is no
  longer than the absolute value of \<open>speed * delta\<close>. In fly mode with exactly forward and
  right active, no touch input and no collider, its length is that absolute value: 3 for
  speed 3 and delta 1.
\<close>

theorem displacement_bounded:
  "vlength (moveDirection s) \<le> 1
   \<and> (flyMode (state s) \<or> vy (position (camera s)) = walkHeight (state s) \<longrightarrow>
        sub (candidate delta (run cast es s)) (previousPosition (run cast es s))
          = multiplyScalar (moveDirection (orientationFusion (run cast es s)))
              (speed (state (run cast es s)) * delta)
        \<and> vlength (sub (position (camera (update cast delta (run cast es s))))
                        (position (camera (run cast es s))))
            \<le> \<bar>speed (state (run cast es s)) * delta\<bar>)
   \<and> (flyMode (state s)
        \<and> movement s = \<lparr>forward = 1, backward = 0, left = 0, right = 1, up = 0, down = 0\<rparr>
        \<and> touchMovement s = \<lparr>touch_x = 0, touch_z = 0\<rparr>
        \<and> colliderTargets s = []
        \<longrightarrow> vlength (sub (position (camera (update cast delta s))) (position (camera s)))
              = \<bar>speed (state s) * delta\<bar>)"
proof (intro conjI impI)
  show "vlength (moveDirection s) \<le> 1"
    by (rule moveDirection_unit_clamped)
next
  assume a: "flyMode (state s) \<or> vy (position (camera s)) = walkHeight (state s)"
  show "sub (candidate delta (run cast es s)) (previousPosition (run cast es s))
          = multiplyScalar (moveDirection (orientationFusion (run cast es s)))
              (speed (state (run cast es s)) * delta)"
    by (rule update_displacement [OF pinned_start [OF a]])
  show "vlength (sub (position (camera (update cast delta (run cast es s))))
                     (position (camera (run cast es s))))
          \<le> \<bar>speed (state (run cast es s)) * delta\<bar>"
    by (rule update_bound [OF pinned_start [OF a]])
next
  assume "flyMode (state s)
        \<and> movement s = \<lparr>forward = 1, backward = 0, left = 0, right = 1, up = 0, down = 0\<rparr>
        \<and> touchMovement s = \<lparr>touch_x = 0, touch_z = 0\<rparr>
        \<and> colliderTargets s = []"
  then show "vlength (sub (position (camera (update cast delta s))) (position (camera s)))
              = \<bar>speed (state s) * delta\<bar>"
    by (simp add: diagonal_displacement)
qed

lemma backpedal_simps:
  "colliderTargets backpedal = []"
  "orientationFusion backpedal = backpedal"
  "position (camera backpedal) = vec3 0 1 5"
  "flyMode (state backpedal)"
  "speed (state backpedal) = - 3"
  by (simp_all add: backpedal_def scene_defs orientationFusion_def vec3_def)

lemma fly_forward_direction:
  assumes "flyMode (state s)" and "rotation (camera s) = \<lparr>ex = 0, ey = 0, ez = 0\<rparr>"
    and "movement s = \<lparr>forward = 1, backward = 0, left = 0, right = 0, up = 0, down = 0\<rparr>"
    and "touchMovement s = \<lparr>touch_x = 0, touch_z = 0\<rparr>"
  shows "moveDirection s = vec3 0 0 (-1)"
  using assms
  by (simp add: moveDirection_def rawDirection_def inputX_def inputY_def inputZ_def
      applyEuler_def applyQuaternion_def setFromEuler_def crossVectors_def normalize_def
      vlength_def lengthSq_def multiplyScalar_def addScaledVector_def Let_def vec3_def)

lemma backpedal_update: "position (camera (update planeCast 1 backpedal)) = vec3 0 1 8"
proof -
  have "moveDirection backpedal = vec3 0 0 (-1)"
    by (rule fly_forward_direction) (simp_all add: backpedal_def scene_defs)
  then show ?thesis
    by (simp add: update_position collisionGuard_def candidate_def integrate_def backpedal_simps
        addScaledVector_def vec3_def)
qed

text \<open>
  The claim as written bounds the displacement by \<open>speed * delta\<close> itself. \<^verbatim>\<open>setSpeed\<close>
  takes any number: with speed -3 and W held one frame of one second moves the camera
  by 3, which exceeds -3.
\<close>

theorem displacement_bounded_counterexample:
  "speed (state backpedal) * 1 = - 3
   \<and> vlength (sub (position (camera (update planeCast 1 backpedal))) (position (camera backpedal))) = 3
   \<and> \<not> (vlength (sub (position (camera (update planeCast 1 backpedal))) (position (camera backpedal)))
          \<le> speed (state backpedal) * 1)"
  by (simp add: backpedal_update backpedal_simps sub_def vlength_axis_z)

theorem displacement_bounded_witness:
  "flyMode (state diagonal)
   \<and> movement diagonal = \<lparr>forward = 1, backward = 0, left = 0, right = 1, up = 0, down = 0\<rparr>
   \<and> speed (state diagonal) = 3
   \<and> vlength (sub (position (camera (update planeCast 1 diagonal))) (position (camera diagonal))) = 3
   \<and> flyMode (state (createWalkFlyControls camera0 True False :: real Controls))
   \<and> vlength (sub (position (camera (update planeCast 1 diagonal))) (position (camera diagonal)))
       \<le> \<bar>speed (state diagonal) * 1\<bar>"
proof -
  have d: "flyMode (state diagonal)
        \<and> movement diagonal = \<lparr>forward = 1, backward = 0, left = 0, right = 1, up = 0, down = 0\<rparr>
        \<and> touchMovement diagonal = \<lparr>touch_x = 0, touch_z = 0\<rparr>
        \<and> colliderTargets diagonal = []"
    and v: "speed (state diagonal) = 3"
    by (simp_all add: diagonal_def scene_defs)
  have n: "flyMode (state (createWalkFlyControls camera0 True False :: real Controls))"
    by (simp add: createWalkFlyControls_def)
  note scenario = displacement_bounded [of diagonal 1 planeCast "[]",
      THEN conjunct2, THEN conjunct2, THEN mp, OF d]
  note bound = displacement_bounded [of "createWalkFlyControls camera0 True False" 1 planeCast
      "[KeyDown ''KeyW'', KeyDown ''KeyD'']", THEN conjunct2, THEN conjunct1, THEN mp, OF disjI1, OF n,
      THEN conjunct2, folded runFrom_def, folded diagonal_def]
  from d v n scenario bound show ?thesis by simp
qed

subsection \<open>Pitch\<close>

lemma multiply_identity: "multiply q \<lparr>qx = 0, qy = 0, qz = 0, qw = 1\<rparr> = q"
  by (cases q) (simp add: multiply_def)

lemma setFromEuler_zero: "setFromEuler \<lparr>ex = 0, ey = 0, ez = 0\<rparr> = \<lparr>qx = 0, qy = 0, qz = 0, qw = 1\<rparr>"
  by (simp add: setFromEuler_def)

lemma setFromAxisAngle_zero: "setFromAxisAngle zee 0 = \<lparr>qx = 0, qy = 0, qz = 0, qw = 1\<rparr>"
  by (simp add: setFromAxisAngle_def zee_def)

lemma sqrt_half_sq: "2 * sqrt (1 / 2) * sqrt (1 / 2) = (1::real)"
proof -
  have h: "sqrt (1 / 2) * sqrt (1 / 2) = \<bar>1 / 2 :: real\<bar>"
    by (rule real_sqrt_mult_self)
  have "2 * sqrt (1 / 2) * sqrt (1 / 2) = 2 * (sqrt (1 / 2) * sqrt (1 / 2 :: real))"
    by (simp only: mult.assoc)
  also have "\<dots> = 2 * \<bar>1 / 2 :: real\<bar>"
    by (simp only: h)
  finally show ?thesis by simp
qed

lemma update_rotation: "rotation (camera (update cast delta s)) = rotation (camera (orientationFusion s))"
  by (simp add: update_def Let_def)

lemma flatDevice_simps:
  "gyroEnabled (state flatDevice)"
  "deviceOrientation flatDevice = Some \<lparr>alpha = Some 0, beta = Some 0, gamma = Some 0\<rparr>"
  "screenOrientation flatDevice = 0"
  "lookOffsetYaw flatDevice = 0"
  "lookOffsetPitch flatDevice = 0"
  by (simp_all add: flatDevice_def runFrom_def createWalkFlyControls_def setGyroEnabled_def
      handleOrientationChange_def handleDeviceOrientation_def addEventListener_def registered_def Let_def)

lemma flatDevice_quaternion: "quaternion (camera (orientationFusion flatDevice)) = q1"
  by (simp add: orientationFusion_def flatDevice_simps orDefault_def Let_def setObjectQuaternion_def
      setFromEuler_zero setFromAxisAngle_zero multiply_identity quaternion_set_def)
    (simp add: multiply_def q1_def)

lemma flatDevice_pitch: "ex (rotation (camera (update planeCast (1/60) flatDevice))) = - (pi / 2)"
proof -
  have "rotation (camera (orientationFusion flatDevice)) = setFromQuaternion q1"
    by (simp add: orientationFusion_def flatDevice_simps orDefault_def Let_def setObjectQuaternion_def
      setFromEuler_zero setFromAxisAngle_zero multiply_identity quaternion_set_def)
      (simp add: multiply_def q1_def)
  moreover have "ex (setFromQuaternion q1) = - (pi / 2)"
    by (simp add: setFromQuaternion_def q1_def clamp_def Let_def sqrt_half_sq)
  ultimately show ?thesis by (simp add: update_rotation)
qed

lemma clamp_bounds: "lo \<le> hi \<Longrightarrow> lo \<le> clamp v lo hi \<and> clamp v lo hi \<le> hi"
  by (simp add: clamp_def)

lemma pitch_limits: "- pi / 2 + 0.05 \<le> pi / 2 - (0.05 :: real)"
  using pi_ge_two by simp

lemma updateRotation_pitch:
  "- pi / 2 + 0.05 \<le> pitch (updateRotation s) \<and> pitch (updateRotation s) \<le> pi / 2 - 0.05
   \<and> ex (rotation (camera (updateRotation s))) = pitch (updateRotation s)"
  using clamp_bounds [OF pitch_limits, of "pitch s"]
  by (simp add: updateRotation_def Let_def rotation_set_def)

lemma setFromQuaternion_pitch: "- (pi / 2) \<le> ex (setFromQuaternion q) \<and> ex (setFromQuaternion q) \<le> pi / 2"
proof -
  define m where "m = 2 * qy q * qz q - 2 * qw q * qx q"
  have e: "ex (setFromQuaternion q) = arcsin (- clamp m (-1) 1)"
    by (simp add: setFromQuaternion_def Let_def m_def)
  have "- 1 \<le> - clamp m (-1) 1" "- clamp m (-1) 1 \<le> 1"
    using clamp_bounds [of "-1" 1 m] by simp_all
  then show ?thesis
    unfolding e by (rule arcsin_bounded)
qed

lemma orientationFusion_gyro_rotation:
  "gyroEnabled (state s) \<Longrightarrow> deviceOrientation s = Some ev \<Longrightarrow>
   rotation (camera (orientationFusion s)) = setFromQuaternion (quaternion (camera (orientationFusion s)))"
  by (simp add: orientationFusion_def Let_def quaternion_set_def)

text \<open>
  Claim C1, amended. Every look delta applied through the accumulators (a mouse move
  under pointer lock, a move on the look pad, each with the gyro off) leaves the pitch
  accumulator and the camera's pitch in the closed range from \<open>-\<pi>/2 + 0.05\<close> to
  \<open>\<pi>/2 - 0.05\<close>. An update does not clamp: without a stored sensor event or with
  the gyro off it leaves the camera's rotation as it finds it, and on the gyro path the
  pitch it writes is the sensor's, anywhere from \<open>-\<pi>/2\<close> to \<open>\<pi>/2\<close>.
\<close>

theorem pitch_range:
  "(- pi / 2 + 0.05 \<le> pitch (updateRotation s) \<and> pitch (updateRotation s) \<le> pi / 2 - 0.05
      \<and> ex (rotation (camera (updateRotation s))) = pitch (updateRotation s))
   \<and> (\<not> gyroEnabled (state s) \<and> isPointerLocked s \<longrightarrow>
        - pi / 2 + 0.05 \<le> ex (rotation (camera (onMouseMove mx my s)))
        \<and> ex (rotation (camera (onMouseMove mx my s))) \<le> pi / 2 - 0.05)
   \<and> (\<not> gyroEnabled (state s) \<and> lookPointerId s = Some i \<longrightarrow>
        - pi / 2 + 0.05 \<le> ex (rotation (camera (lookPad_pointermove i cx cy s)))
        \<and> ex (rotation (camera (lookPad_pointermove i cx cy s))) \<le> pi / 2 - 0.05)
   \<and> (\<not> gyroEnabled (state s) \<or> deviceOrientation s = None \<longrightarrow>
        rotation (camera (update cast delta s)) = rotation (camera s))
   \<and> (gyroEnabled (state s) \<and> deviceOrientation s \<noteq> None \<longrightarrow>
        - (pi / 2) \<le> ex (rotation (camera (update cast delta s)))
        \<and> ex (rotation (camera (update cast delta s))) \<le> pi / 2)"
proof (intro conjI impI)
  show "- pi / 2 + 0.05 \<le> pitch (updateRotation s)" "pitch (updateRotation s) \<le> pi / 2 - 0.05"
    "ex (rotation (camera (updateRotation s))) = pitch (updateRotation s)"
    using updateRotation_pitch [of s] by simp_all
next
  assume a: "\<not> gyroEnabled (state s) \<and> isPointerLocked s"
  let ?t = "s\<lparr>yaw := yaw s - mx * lookSpeed (state s), pitch := pitch s - my * lookSpeed (state s)\<rparr>"
  have m: "onMouseMove mx my s = updateRotation ?t"
    using a by (simp add: onMouseMove_def)
  show "- pi / 2 + 0.05 \<le> ex (rotation (camera (onMouseMove mx my s)))"
    "ex (rotation (camera (onMouseMove mx my s))) \<le> pi / 2 - 0.05"
    unfolding m using updateRotation_pitch [of ?t] by simp_all
next
  assume a: "\<not> gyroEnabled (state s) \<and> lookPointerId s = Some i"
  let ?t = "s\<lparr>lastLook := (cx, cy), yaw := yaw s - (cx - fst (lastLook s)) * lookSpeed (state s) * 1.5,
               pitch := pitch s - (cy - snd (lastLook s)) * lookSpeed (state s) * 1.5\<rparr>"
  have m: "lookPad_pointermove i cx cy s = updateRotation ?t"
    using a by (simp add: lookPad_pointermove_def Let_def)
  show "- pi / 2 + 0.05 \<le> ex (rotation (camera (lookPad_pointermove i cx cy s)))"
    "ex (rotation (camera (lookPad_pointermove i cx cy s))) \<le> pi / 2 - 0.05"
    unfolding m using updateRotation_pitch [of ?t] by simp_all
next
  assume "\<not> gyroEnabled (state s) \<or> deviceOrientation s = None"
  then have "orientationFusion s = s" by (auto simp add: orientationFusion_def)
  then show "rotation (camera (update cast delta s)) = rotation (camera s)"
    by (simp add: update_rotation)
next
  assume "gyroEnabled (state s) \<and> deviceOrientation s \<noteq> None"
  then have "rotation (camera (orientationFusion s))
               = setFromQuaternion (quaternion (camera (orientationFusion s)))"
    using orientationFusion_gyro_rotation [of s] by auto
  then show "- (pi / 2) \<le> ex (rotation (camera (update cast delta s)))"
    "ex (rotation (camera (update cast delta s))) \<le> pi / 2"
    using setFromQuaternion_pitch [of "quaternion (camera (orientationFusion s))"]
    by (simp_all add: update_rotation)
qed

theorem pitch_range_witness:
  "\<not> gyroEnabled (state (onPointerLockChange True created0))
   \<and> isPointerLocked (onPointerLockChange True created0)
   \<and> ex (rotation (camera (onMouseMove 0 (- 1000) (onPointerLockChange True created0)))) \<le> pi / 2 - 0.05
   \<and> lookPointerId (lookPad_pointerdown 1 0 0 created0) = Some 1
   \<and> - pi / 2 + 0.05 \<le> ex (rotation (camera (lookPad_pointermove 1 0 900 (lookPad_pointerdown 1 0 0 created0))))
   \<and> rotation (camera (update planeCast (1/60) created0)) = rotation (camera created0)
   \<and> gyroEnabled (state flatDevice) \<and> deviceOrientation flatDevice \<noteq> None
   \<and> - (pi / 2) \<le> ex (rotation (camera (update planeCast (1/60) flatDevice)))"
proof -
  have a: "\<not> gyroEnabled (state (onPointerLockChange True created0))
           \<and> isPointerLocked (onPointerLockChange True created0)"
    by (simp add: onPointerLockChange_def created0_simps)
  have b: "\<not> gyroEnabled (state (lookPad_pointerdown 1 0 0 created0))
           \<and> lookPointerId (lookPad_pointerdown 1 0 0 created0) = Some 1"
    by (simp add: lookPad_pointerdown_def created0_simps)
  have c: "\<not> gyroEnabled (state created0) \<or> deviceOrientation created0 = None"
    by (simp add: created0_simps)
  have d: "gyroEnabled (state flatDevice) \<and> deviceOrientation flatDevice \<noteq> None"
    by (simp add: flatDevice_simps)
  note mouse = pitch_range [of "onPointerLockChange True created0" 0 "- 1000" 1 0 900 planeCast "1/60",
      THEN conjunct2, THEN conjunct1, THEN mp, OF a, THEN conjunct2]
  note touch = pitch_range [of "lookPad_pointerdown 1 0 0 created0" 0 "- 1000" 1 0 900 planeCast "1/60",
      THEN conjunct2, THEN conjunct2, THEN conjunct1, THEN mp, OF b, THEN conjunct1]
  note still = pitch_range [of created0 0 "- 1000" 1 0 900 planeCast "1/60",
      THEN conjunct2, THEN conjunct2, THEN conjunct2, THEN conjunct1, THEN mp, OF c]
  note gyro = pitch_range [of flatDevice 0 "- 1000" 1 0 900 planeCast "1/60",
      THEN conjunct2, THEN conjunct2, THEN conjunct2, THEN conjunct2, THEN mp, OF d, THEN conjunct1]
  from a b d mouse touch still gyro show ?thesis
    by (intro conjI) (erule conjunct1 conjunct2 | assumption)+
qed

text \<open>
  The claim as written fails on the gyro path: with the device lying flat the update
  points the camera straight down, at pitch \<open>-\<pi>/2\<close>.
\<close>

theorem pitch_range_counterexample:
  "\<not> (- pi / 2 + 0.05 < ex (rotation (camera (update planeCast (1/60) flatDevice)))
       \<and> ex (rotation (camera (update planeCast (1/60) flatDevice))) < pi / 2 - 0.05)"
  by (simp add: flatDevice_pitch)

subsection \<open>Switching the gyro on and off\<close>

lemma gyroLooking_simps:
  "gyroEnabled (state gyroLooking)"
  "gyroAvailable (state gyroLooking)"
  "deviceOrientation gyroLooking = Some \<lparr>alpha = Some 90, beta = Some 90, gamma = Some 0\<rparr>"
  "screenOrientation gyroLooking = 0"
  "lookOffsetYaw gyroLooking = 0"
  "lookOffsetPitch gyroLooking = 0"
  "yaw gyroLooking = 0"
  "pitch gyroLooking = 0"
  "isPointerLocked gyroLooking"
  "registered (Document, ''mousemove'', OnMouseMove, False) gyroLooking"
  by (simp_all add: gyroLooking_def runFrom_def createWalkFlyControls_def camera0_def
      setGyroEnabled_def onPointerLockChange_def handleOrientationChange_def
      handleDeviceOrientation_def addEventListener_def registered_def Let_def)

lemma sqrt_half: "sqrt (1 / 2) * sqrt (1 / 2) = (1 / 2 :: real)"
  using real_sqrt_mult_self [of "1 / 2 :: real"] by simp

lemma sqrt2_sq: "sqrt 2 * sqrt 2 = (2 :: real)"
  using real_sqrt_mult_self [of "2 :: real"] by simp

lemma setFromEuler_upright:
  "setFromEuler \<lparr>ex = pi / 2, ey = pi / 2, ez = 0\<rparr> = \<lparr>qx = 1 / 2, qy = 1 / 2, qz = - (1 / 2), qw = 1 / 2\<rparr>"
  by (simp add: setFromEuler_def cos_45 sin_45 sqrt2_sq)

lemma upright_quaternion:
  "setObjectQuaternion (pi / 2) (pi / 2) 0 0 = \<lparr>qx = 0, qy = sqrt (1 / 2), qz = 0, qw = sqrt (1 / 2)\<rparr>"
  by (simp add: setObjectQuaternion_def setFromEuler_upright setFromAxisAngle_zero multiply_identity)
    (simp add: multiply_def q1_def)

lemma upright_rotation:
  "setFromQuaternion \<lparr>qx = 0, qy = sqrt (1 / 2), qz = 0, qw = sqrt (1 / 2)\<rparr> = \<lparr>ex = 0, ey = pi / 2, ez = 0\<rparr>"
  by (simp add: setFromQuaternion_def Let_def clamp_def atan2_def sqrt_half_sq)

lemma gyroLooking_fused:
  "rotation (camera (orientationFusion gyroLooking)) = \<lparr>ex = 0, ey = pi / 2, ez = 0\<rparr>"
  by (simp add: orientationFusion_def gyroLooking_simps orDefault_def Let_def upright_quaternion
      setFromEuler_zero multiply_identity quaternion_set_def upright_rotation)

lemma update_fields:
  "state (update cast delta s) = state (orientationFusion s)"
  "yaw (update cast delta s) = yaw (orientationFusion s)"
  "pitch (update cast delta s) = pitch (orientationFusion s)"
  "isPointerLocked (update cast delta s) = isPointerLocked (orientationFusion s)"
  "listeners (update cast delta s) = listeners (orientationFusion s)"
  by (simp_all add: update_def Let_def)

lemma orientationFusion_fields:
  "state (orientationFusion s) = state s"
  "yaw (orientationFusion s) = yaw s"
  "pitch (orientationFusion s) = pitch s"
  "isPointerLocked (orientationFusion s) = isPointerLocked s"
  "listeners (orientationFusion s) = listeners s"
  by (simp_all add: orientationFusion_def Let_def split: option.splits)

lemma gyroOffAgain_simps:
  "\<not> gyroEnabled (state gyroOffAgain)"
  "yaw gyroOffAgain = 0"
  "pitch gyroOffAgain = 0"
  "isPointerLocked gyroOffAgain"
  "registered (Document, ''mousemove'', OnMouseMove, False) gyroOffAgain"
  "rotation (camera gyroOffAgain) = \<lparr>ex = 0, ey = pi / 2, ez = 0\<rparr>"
  using gyroLooking_simps(10)
  by (simp_all add: gyroOffAgain_def setGyroEnabled_def Let_def update_fields orientationFusion_fields
      gyroLooking_simps update_rotation gyroLooking_fused registered_def removeEventListener_def)

text \<open>
  Claim C4, evaluated. After the gyro has turned the camera to a yaw of \<open>\<pi>/2\<close> and has
  been switched off, \<open>gyroEnabled\<close> is false, but the accumulators still hold the yaw and
  pitch captured when the gyro was switched on: the next mouse event, even with zero
  movement, turns the camera back to yaw 0.
\<close>

theorem gyro_round_trip_snaps_back:
  "gyroEnabled (getState gyroOffAgain) = False
   \<and> rotation (camera gyroOffAgain) = \<lparr>ex = 0, ey = pi / 2, ez = 0\<rparr>
   \<and> rotation (camera (step planeCast (MouseMove 0 0) gyroOffAgain)) = \<lparr>ex = 0, ey = 0, ez = 0\<rparr>"
proof -
  have "- pi / 2 + 0.05 \<le> (0 :: real)" "(0 :: real) \<le> pi / 2 - 0.05"
    using pi_ge_two by simp_all
  then show ?thesis
    by (simp add: getState_def gyroOffAgain_simps onMouseMove_def updateRotation_def clamp_def
        rotation_set_def Let_def)
qed

end
